theory Spec2Isabelle
  imports Main "HOL-Library.Sublist"
begin

section \<open>Error numbers and package dictionaries\<close>

text \<open>
  The error numbers of \<^verbatim>\<open>errno.h\<close> that the two source files name, with their Linux
  values. \<^verbatim>\<open>errno\<close> itself is a C global: every function below that reads or writes it
  takes its value and returns the new one.
\<close>

abbreviation ENOENT :: int where "ENOENT \<equiv> 2"
abbreviation EIO :: int where "EIO \<equiv> 5"
abbreviation ENOMEM :: int where "ENOMEM \<equiv> 12"
abbreviation EACCES :: int where "EACCES \<equiv> 13"
abbreviation ENODEV :: int where "ENODEV \<equiv> 19"
abbreviation ERANGE :: int where "ERANGE \<equiv> 34"

text \<open>
  A package dictionary (\<^verbatim>\<open>prop_dictionary_t\<close>) with the keys that the code reads with
  \<^verbatim>\<open>prop_dictionary_get_cstring_nocopy\<close> and \<^verbatim>\<open>prop_dictionary_get_bool\<close> or writes with
  \<^verbatim>\<open>prop_dictionary_set_cstring\<close>. The code reads the string keys into uninitialised
  locals without testing the result, so a dictionary it can work on has all of them;
  \<^verbatim>\<open>repository\<close> is absent until a resolver callback sets it, and an absent
  \<^verbatim>\<open>preserve\<close> leaves the local at \<^verbatim>\<open>false\<close>.
\<close>

record pkg_dict =
  pkgname :: string
  version :: string
  pkgver :: string
  filename :: string
  repository :: "string option"
  preserve :: bool
  transaction :: string

section \<open>Repository pool: \<^verbatim>\<open>lib/repository_pool_find.c\<close>\<close>

record 'r repository_pool_index =
  rpi_uri :: string
  rpi_repod :: 'r

record repo_pool_fpkg =
  rpf_pkgd :: "pkg_dict option"
  rpf_pattern :: string
  rpf_bestpkgver :: "string option"
  rpf_repo_bestmatch :: "string option"
  rpf_bypattern :: bool
  rpf_exact :: bool

text \<open>
  The helpers of \<^verbatim>\<open>xbps_api_impl.h\<close> that the file calls are not part of the two source
  files; they are parameters of the model. A lookup returns the dictionary it found
  (or \<^verbatim>\<open>NULL\<close>) and may assign \<^verbatim>\<open>errno\<close>. \<open>malloc_rpf\<close> tells whether the allocation
  that \<^verbatim>\<open>repo_find_pkg\<close> makes for a query succeeds.
\<close>

type_synonym lookup = "pkg_dict option \<times> int option"

record 'r xbps_api_impl =
  xbps_find_pkg_in_dict_by_pkgver :: "'r \<Rightarrow> string \<Rightarrow> string \<Rightarrow> lookup"
  xbps_find_pkg_in_dict_by_name :: "'r \<Rightarrow> string \<Rightarrow> string \<Rightarrow> lookup"
  xbps_find_pkg_in_dict_by_pattern :: "'r \<Rightarrow> string \<Rightarrow> string \<Rightarrow> lookup"
  xbps_find_virtualpkg_in_dict_by_name :: "'r \<Rightarrow> string \<Rightarrow> string \<Rightarrow> lookup"
  xbps_find_virtualpkg_in_dict_by_pattern :: "'r \<Rightarrow> string \<Rightarrow> string \<Rightarrow> lookup"
  xbps_find_virtualpkg_conf_in_dict_by_name :: "'r \<Rightarrow> string \<Rightarrow> string \<Rightarrow> lookup"
  xbps_find_virtualpkg_conf_in_dict_by_pattern :: "'r \<Rightarrow> string \<Rightarrow> string \<Rightarrow> lookup"
  xbps_cmpver :: "string \<Rightarrow> string \<Rightarrow> int"
  malloc_rpf :: "string \<Rightarrow> bool"

text \<open>
  \<^verbatim>\<open>rpf->pkgd\<close> points into the dictionary of the repository index, and the callbacks
  write the \<^verbatim>\<open>repository\<close> key there. A callback that writes it also sets \<^verbatim>\<open>*done\<close>, so no
  lookup of the same search reads the index after the write, and the caller receives a
  copy: the model annotates the value that is returned.
\<close>

text \<open>\<^verbatim>\<open>rpf->pkgd = lookup(...)\<close>: store the result, let the call assign \<^verbatim>\<open>errno\<close>.\<close>

definition assign_errno :: "int option \<Rightarrow> int \<Rightarrow> int" where
  "assign_errno e errno = (case e of None \<Rightarrow> errno | Some v \<Rightarrow> v)"

definition store_pkgd :: "lookup \<Rightarrow> repo_pool_fpkg \<times> int \<Rightarrow> repo_pool_fpkg \<times> int" where
  "store_pkgd l s = (fst s\<lparr>rpf_pkgd := fst l\<rparr>, assign_errno (snd l) (snd s))"

text \<open>
  A callback takes the repository and the triple (\<^verbatim>\<open>*arg\<close>, \<^verbatim>\<open>errno\<close>, \<^verbatim>\<open>*done\<close>) and
  returns its status with the updated triple.
\<close>

type_synonym cb_arg = "repo_pool_fpkg \<times> int \<times> bool"

definition repo_find_virtualpkg_cb ::
  "'r xbps_api_impl \<Rightarrow> 'r repository_pool_index \<Rightarrow> cb_arg \<Rightarrow> int \<times> cb_arg" where
  "repo_find_virtualpkg_cb api rpi a =
     (case a of (rpf0, errno0, done) \<Rightarrow>
        (case (if rpf_bypattern rpf0
               then store_pkgd (xbps_find_virtualpkg_conf_in_dict_by_pattern api
                      (rpi_repod rpi) ''packages'' (rpf_pattern rpf0)) (rpf0, errno0)
               else store_pkgd (xbps_find_virtualpkg_conf_in_dict_by_name api
                      (rpi_repod rpi) ''packages'' (rpf_pattern rpf0)) (rpf0, errno0))
         of (rpf, errno) \<Rightarrow>
           (case rpf_pkgd rpf of
              Some d \<Rightarrow>
                (0, rpf\<lparr>rpf_pkgd := Some (d\<lparr>repository := Some (rpi_uri rpi)\<rparr>)\<rparr>, errno, True)
            | None \<Rightarrow> (0, rpf, errno, done))))"

definition repo_find_pkg_cb ::
  "'r xbps_api_impl \<Rightarrow> 'r repository_pool_index \<Rightarrow> cb_arg \<Rightarrow> int \<times> cb_arg" where
  "repo_find_pkg_cb api rpi a =
     (case a of (rpf0, errno0, done) \<Rightarrow>
        if rpf_exact rpf0 \<and>
           (case rpf_repo_bestmatch rpf0 of None \<Rightarrow> False | Some u \<Rightarrow> u \<noteq> rpi_uri rpi)
        then (0, rpf0, errno0, done)
        else
        (case (if rpf_exact rpf0
               then store_pkgd (xbps_find_pkg_in_dict_by_pkgver api
                      (rpi_repod rpi) ''packages'' (rpf_pattern rpf0)) (rpf0, errno0)
               else if rpf_bypattern rpf0
               then (case store_pkgd (xbps_find_pkg_in_dict_by_pattern api
                            (rpi_repod rpi) ''packages'' (rpf_pattern rpf0)) (rpf0, errno0)
                     of (rpf1, errno1) \<Rightarrow>
                       if rpf_pkgd rpf1 = None
                       then store_pkgd (xbps_find_virtualpkg_in_dict_by_pattern api
                              (rpi_repod rpi) ''packages'' (rpf_pattern rpf1)) (rpf1, errno1)
                       else (rpf1, errno1))
               else (case store_pkgd (xbps_find_pkg_in_dict_by_name api
                            (rpi_repod rpi) ''packages'' (rpf_pattern rpf0)) (rpf0, errno0)
                     of (rpf1, errno1) \<Rightarrow>
                       if rpf_pkgd rpf1 = None
                       then store_pkgd (xbps_find_virtualpkg_in_dict_by_name api
                              (rpi_repod rpi) ''packages'' (rpf_pattern rpf1)) (rpf1, errno1)
                       else (rpf1, errno1)))
         of (rpf, errno) \<Rightarrow>
           (case rpf_pkgd rpf of
              Some d \<Rightarrow>
                (0, rpf\<lparr>rpf_pkgd := Some (d\<lparr>repository := Some (rpi_uri rpi)\<rparr>)\<rparr>, errno, True)
            | None \<Rightarrow> (0, rpf, errno, done))))"

definition repo_find_best_pkg_cb ::
  "'r xbps_api_impl \<Rightarrow> 'r repository_pool_index \<Rightarrow> cb_arg \<Rightarrow> int \<times> cb_arg" where
  "repo_find_best_pkg_cb api rpi a =
     (case a of (rpf0, errno0, done) \<Rightarrow>
        (case (if rpf_bypattern rpf0
               then store_pkgd (xbps_find_pkg_in_dict_by_pattern api
                      (rpi_repod rpi) ''packages'' (rpf_pattern rpf0)) (rpf0, errno0)
               else store_pkgd (xbps_find_pkg_in_dict_by_name api
                      (rpi_repod rpi) ''packages'' (rpf_pattern rpf0)) (rpf0, errno0))
         of (rpf, errno) \<Rightarrow>
           (case rpf_pkgd rpf of
              None \<Rightarrow>
                if errno \<noteq> 0 \<and> errno \<noteq> ENOENT then (errno, rpf, errno, done)
                else (0, rpf, errno, done)
            | Some d \<Rightarrow>
                (case rpf_bestpkgver rpf of
                   None \<Rightarrow>
                     (0, rpf\<lparr>rpf_bestpkgver := Some (pkgver d),
                             rpf_repo_bestmatch := Some (rpi_uri rpi)\<rparr>, errno, done)
                 | Some best \<Rightarrow>
                     if xbps_cmpver api (pkgver d) best \<noteq> 0
                     then (0, rpf\<lparr>rpf_bestpkgver := Some (pkgver d),
                                  rpf_repo_bestmatch := Some (rpi_uri rpi)\<rparr>, errno, done)
                     else (0, rpf, errno, done)))))"

text \<open>
  Modelled from the spec: \<^verbatim>\<open>xbps_repository_pool_foreach\<close> is not in the two source
  files. The spec's repository pool iteration interface: "\<^verbatim>\<open>for_each(callback) -> status\<close>,
  where callback receives one RepositoryIndex and a mutable done flag; iteration stops
  when done is set or the callback returns a non-zero status". The pool is the ordered
  list of repositories of the process-wide handle, passed explicitly.
\<close>

fun foreach_from ::
  "('r repository_pool_index \<Rightarrow> cb_arg \<Rightarrow> int \<times> cb_arg) \<Rightarrow>
   'r repository_pool_index list \<Rightarrow> cb_arg \<Rightarrow> int \<times> repo_pool_fpkg \<times> int" where
  "foreach_from fn [] a = (0, fst a, fst (snd a))"
| "foreach_from fn (rpi # rest) a =
     (case fn rpi a of (rv, rpf, errno, done) \<Rightarrow>
        if rv \<noteq> 0 \<or> done then (rv, rpf, errno)
        else foreach_from fn rest (rpf, errno, done))"

definition xbps_repository_pool_foreach ::
  "('r repository_pool_index \<Rightarrow> cb_arg \<Rightarrow> int \<times> cb_arg) \<Rightarrow>
   'r repository_pool_index list \<Rightarrow> repo_pool_fpkg \<times> int \<Rightarrow> int \<times> repo_pool_fpkg \<times> int" where
  "xbps_repository_pool_foreach fn pool s = foreach_from fn pool (fst s, snd s, False)"

text \<open>\<^verbatim>\<open>rv = xbps_repository_pool_foreach(cb, rpf); if (rv != 0) errno = rv;\<close>\<close>

definition foreach_errno ::
  "int \<times> repo_pool_fpkg \<times> int \<Rightarrow> repo_pool_fpkg \<times> int" where
  "foreach_errno r = (case r of (rv, rpf, errno) \<Rightarrow> (rpf, if rv \<noteq> 0 then rv else errno))"

text \<open>
  \<^verbatim>\<open>repo_find_pkg\<close> returns \<^verbatim>\<open>NULL\<close> (\<open>None\<close>) when its allocation fails. Its three callers
  dereference the result without a test, so they do not return in that case: their
  \<open>None\<close> is the null dereference. In best mode \<^verbatim>\<open>repo_find_pkg\<close> calls
  \<^verbatim>\<open>xbps_repository_pool_find_pkg_exact\<close>, which calls \<^verbatim>\<open>repo_find_pkg\<close> with
  \<^verbatim>\<open>exact\<close> set.
\<close>

definition rpf_init :: "string \<Rightarrow> bool \<Rightarrow> bool \<Rightarrow> repo_pool_fpkg" where
  "rpf_init pkg bypat ex =
     \<lparr>rpf_pkgd = None, rpf_pattern = pkg, rpf_bestpkgver = None, rpf_repo_bestmatch = None,
      rpf_bypattern = bypat, rpf_exact = ex\<rparr>"

function repo_find_pkg ::
  "'r xbps_api_impl \<Rightarrow> 'r repository_pool_index list \<Rightarrow> string \<Rightarrow> bool \<Rightarrow> bool \<Rightarrow> bool \<Rightarrow>
   bool \<Rightarrow> int \<Rightarrow> (repo_pool_fpkg \<times> int) option"
and xbps_repository_pool_find_pkg_exact ::
  "'r xbps_api_impl \<Rightarrow> 'r repository_pool_index list \<Rightarrow> string \<Rightarrow> int \<Rightarrow>
   (pkg_dict option \<times> int) option" where
  "repo_find_pkg api pool pkg bypat best ex virt errno0 =
     (if \<not> malloc_rpf api pkg then None
      else if ex
      then Some (foreach_errno (xbps_repository_pool_foreach (repo_find_pkg_cb api) pool
             (rpf_init pkg bypat ex, errno0)))
      else if best
      then (let s = foreach_errno (xbps_repository_pool_foreach (repo_find_best_pkg_cb api)
                      pool (rpf_init pkg bypat ex, errno0))
            in case rpf_bestpkgver (fst s) of
                 None \<Rightarrow> Some s
               | Some bestpkgver \<Rightarrow>
                   (case xbps_repository_pool_find_pkg_exact api pool bestpkgver (snd s) of
                      None \<Rightarrow> None
                    | Some (d, errno) \<Rightarrow> Some (fst s\<lparr>rpf_pkgd := d\<rparr>, errno)))
      else if virt
      then Some (foreach_errno (xbps_repository_pool_foreach (repo_find_virtualpkg_cb api) pool
             (rpf_init pkg bypat ex, errno0)))
      else Some (foreach_errno (xbps_repository_pool_foreach (repo_find_pkg_cb api) pool
             (rpf_init pkg bypat ex, errno0))))"
| "xbps_repository_pool_find_pkg_exact api pool pv errno0 =
     (case repo_find_pkg api pool pv False False True False errno0 of
        None \<Rightarrow> None
      | Some (rpf, errno) \<Rightarrow> Some (rpf_pkgd rpf, errno))"
  by pat_completeness auto
termination
  by (relation "measure (\<lambda>x. case x of
        Inl (api, pool, pkg, bypat, best, ex, virt, errno0) \<Rightarrow> if ex then 0 else 2
      | Inr _ \<Rightarrow> 1)") auto

declare repo_find_pkg.simps [simp del]
declare xbps_repository_pool_find_pkg_exact.simps [simp del]

definition xbps_repository_pool_find_virtualpkg ::
  "'r xbps_api_impl \<Rightarrow> 'r repository_pool_index list \<Rightarrow> string \<Rightarrow> bool \<Rightarrow> bool \<Rightarrow> int \<Rightarrow>
   (pkg_dict option \<times> int) option" where
  "xbps_repository_pool_find_virtualpkg api pool pkg bypat best errno0 =
     (case repo_find_pkg api pool pkg bypat best False True errno0 of
        None \<Rightarrow> None
      | Some (rpf, errno) \<Rightarrow> Some (rpf_pkgd rpf, errno))"

definition xbps_repository_pool_find_pkg ::
  "'r xbps_api_impl \<Rightarrow> 'r repository_pool_index list \<Rightarrow> string \<Rightarrow> bool \<Rightarrow> bool \<Rightarrow> int \<Rightarrow>
   (pkg_dict option \<times> int) option" where
  "xbps_repository_pool_find_pkg api pool pkg bypat best errno0 =
     (case repo_find_pkg api pool pkg bypat best False False errno0 of
        None \<Rightarrow> None
      | Some (rpf, errno) \<Rightarrow> Some (rpf_pkgd rpf, errno))"

subsection \<open>What the spec says \<^verbatim>\<open>find\<close> returns\<close>

text \<open>
  The spec's \<^verbatim>\<open>find(name_or_pattern, by_pattern)\<close>: "per repository, search packages
  catalog by name or pattern; if absent, fall back to a virtualpkg catalog lookup (name
  or pattern) before moving to the next repository; returns on first hit", the
  descriptor annotated with the URI of that repository.
\<close>

definition spec_repo_lookup ::
  "'r xbps_api_impl \<Rightarrow> 'r repository_pool_index \<Rightarrow> string \<Rightarrow> bool \<Rightarrow> pkg_dict option" where
  "spec_repo_lookup api rpi pkg bypat =
     (if bypat
      then (case fst (xbps_find_pkg_in_dict_by_pattern api (rpi_repod rpi) ''packages'' pkg) of
              Some d \<Rightarrow> Some d
            | None \<Rightarrow>
                fst (xbps_find_virtualpkg_in_dict_by_pattern api (rpi_repod rpi) ''packages'' pkg))
      else (case fst (xbps_find_pkg_in_dict_by_name api (rpi_repod rpi) ''packages'' pkg) of
              Some d \<Rightarrow> Some d
            | None \<Rightarrow>
                fst (xbps_find_virtualpkg_in_dict_by_name api (rpi_repod rpi) ''packages'' pkg)))"

fun spec_find ::
  "'r xbps_api_impl \<Rightarrow> 'r repository_pool_index list \<Rightarrow> string \<Rightarrow> bool \<Rightarrow> pkg_dict option" where
  "spec_find api [] pkg bypat = None"
| "spec_find api (rpi # rest) pkg bypat =
     (case spec_repo_lookup api rpi pkg bypat of
        Some d \<Rightarrow> Some (d\<lparr>repository := Some (rpi_uri rpi)\<rparr>)
      | None \<Rightarrow> spec_find api rest pkg bypat)"

subsection \<open>An instance of the helpers\<close>

text \<open>
  Modelled from the spec: the lookup helpers and \<^verbatim>\<open>xbps_cmpver\<close> are not in the two
  source files. This instance follows the spec's RepositoryIndex ("catalog" of package
  descriptors), PatternMatcher (by-name: "exact equality of the package name"; by-pattern:
  "\<^verbatim>\<open>name<op>version\<close> where op is one of \<^verbatim>\<open><\<close>, \<^verbatim>\<open>>\<close>, \<^verbatim>\<open><=\<close>, \<^verbatim>\<open>>=\<close>, \<^verbatim>\<open>==\<close>; match requires
  name equality and VersionComparator result satisfying op") and VersionComparator
  ("\<^verbatim>\<open>compare(a, b) -> {less, equal, greater}\<close>", component-wise, a higher revision suffix
  greater), the three outcomes being the return values -1, 0 and 1. An index whose
  \<open>index_errno\<close> is not 0 cannot be read: every lookup in it fails with that error
  number. A lookup that finds nothing sets \<^verbatim>\<open>errno\<close> to \<^verbatim>\<open>ENOENT\<close>.
\<close>

record plist_repod =
  packages :: "pkg_dict list"
  virtualpkgs :: "(string \<times> pkg_dict) list"
  conf_virtualpkgs :: "(string \<times> pkg_dict) list"
  index_errno :: int

fun split_on :: "(char \<Rightarrow> bool) \<Rightarrow> string \<Rightarrow> string \<Rightarrow> string list" where
  "split_on sep [] acc = [rev acc]"
| "split_on sep (c # cs) acc =
     (if sep c then rev acc # split_on sep cs [] else split_on sep cs (c # acc))"

definition component_value :: "string \<Rightarrow> nat" where
  "component_value s = fold (\<lambda>c n. 10 * n + (of_char c - 48)) s 0"

definition version_part :: "string \<Rightarrow> string" where
  "version_part s = rev (takeWhile (\<lambda>c. c \<noteq> CHR ''-'') (rev s))"

definition version_components :: "string \<Rightarrow> nat list" where
  "version_components s =
     map component_value
       (split_on (\<lambda>c. c = CHR ''.'' \<or> c = CHR ''_'') (version_part s) [])"

fun compare_components :: "nat list \<Rightarrow> nat list \<Rightarrow> int" where
  "compare_components [] [] = 0"
| "compare_components [] (y # ys) = (if y = 0 then compare_components [] ys else - 1)"
| "compare_components (x # xs) [] = (if x = 0 then compare_components xs [] else 1)"
| "compare_components (x # xs) (y # ys) =
     (if x < y then - 1 else if y < x then 1 else compare_components xs ys)"

definition plist_cmpver :: "string \<Rightarrow> string \<Rightarrow> int" where
  "plist_cmpver a b = compare_components (version_components a) (version_components b)"

definition is_op_char :: "char \<Rightarrow> bool" where
  "is_op_char c = (c = CHR ''<'' \<or> c = CHR ''>'' \<or> c = CHR ''='')"

definition pattern_match :: "string \<Rightarrow> pkg_dict \<Rightarrow> bool" where
  "pattern_match pat d =
     (let name = takeWhile (\<lambda>c. \<not> is_op_char c) pat;
          rest = dropWhile (\<lambda>c. \<not> is_op_char c) pat;
          op = takeWhile is_op_char rest;
          c = plist_cmpver (version d) (dropWhile is_op_char rest)
      in pkgname d = name \<and>
         (if op = ''<'' then c < 0
          else if op = ''>'' then 0 < c
          else if op = ''<='' then c \<le> 0
          else if op = ''>='' then 0 \<le> c
          else if op = ''=='' then c = 0
          else False))"

definition plist_lookup :: "plist_repod \<Rightarrow> pkg_dict option \<Rightarrow> lookup" where
  "plist_lookup r found =
     (if index_errno r \<noteq> 0 then (None, Some (index_errno r))
      else case found of None \<Rightarrow> (None, Some ENOENT) | Some d \<Rightarrow> (Some d, None))"

definition pattern_name :: "string \<Rightarrow> string" where
  "pattern_name pat = takeWhile (\<lambda>c. \<not> is_op_char c) pat"

definition plist_api :: "plist_repod xbps_api_impl" where
  "plist_api =
     \<lparr>xbps_find_pkg_in_dict_by_pkgver =
        (\<lambda>r key pv. plist_lookup r (find (\<lambda>d. pkgver d = pv) (packages r))),
      xbps_find_pkg_in_dict_by_name =
        (\<lambda>r key name. plist_lookup r (find (\<lambda>d. pkgname d = name) (packages r))),
      xbps_find_pkg_in_dict_by_pattern =
        (\<lambda>r key pat. plist_lookup r (find (pattern_match pat) (packages r))),
      xbps_find_virtualpkg_in_dict_by_name =
        (\<lambda>r key name. plist_lookup r (map_of (virtualpkgs r) name)),
      xbps_find_virtualpkg_in_dict_by_pattern =
        (\<lambda>r key pat. plist_lookup r (map_of (virtualpkgs r) (pattern_name pat))),
      xbps_find_virtualpkg_conf_in_dict_by_name =
        (\<lambda>r key name. plist_lookup r (map_of (conf_virtualpkgs r) name)),
      xbps_find_virtualpkg_conf_in_dict_by_pattern =
        (\<lambda>r key pat. plist_lookup r (map_of (conf_virtualpkgs r) (pattern_name pat))),
      xbps_cmpver = plist_cmpver,
      malloc_rpf = (\<lambda>pkg. True)\<rparr>"

definition mk_pkg :: "string \<Rightarrow> string \<Rightarrow> pkg_dict" where
  "mk_pkg name ver =
     \<lparr>pkgname = name, version = ver, pkgver = name @ ''-'' @ ver,
      filename = name @ ''-'' @ ver @ ''.xbps'', repository = None, preserve = False,
      transaction = ''install''\<rparr>"

definition mk_repo :: "string \<Rightarrow> pkg_dict list \<Rightarrow> plist_repod repository_pool_index" where
  "mk_repo uri pkgs =
     \<lparr>rpi_uri = uri,
      rpi_repod = \<lparr>packages = pkgs, virtualpkgs = [], conf_virtualpkgs = [], index_errno = 0\<rparr>\<rparr>"

definition mk_broken_repo :: "string \<Rightarrow> int \<Rightarrow> plist_repod repository_pool_index" where
  "mk_broken_repo uri e =
     \<lparr>rpi_uri = uri,
      rpi_repod = \<lparr>packages = [], virtualpkgs = [], conf_virtualpkgs = [], index_errno = e\<rparr>\<rparr>"

section \<open>Unpacking a binary package: \<^verbatim>\<open>lib/package_unpack.c\<close>\<close>

subsection \<open>Data\<close>

datatype pkg_state =
    XBPS_PKG_STATE_UNPACKED
  | XBPS_PKG_STATE_HALF_UNPACKED
  | XBPS_PKG_STATE_INSTALLED
  | XBPS_PKG_STATE_BROKEN
  | XBPS_PKG_STATE_NOT_INSTALLED
  | XBPS_PKG_STATE_CONFIG_FILES

datatype xbps_state = XBPS_STATE_UNPACK | XBPS_STATE_UNPACK_FAIL | XBPS_STATE_CONFIG_FILE

datatype extract_flags = FEXTRACT_FLAGS | EXTRACT_FLAGS

datatype file_type = S_IFREG | S_IFDIR | S_IFLNK | S_IFOTHER

record archive_entry =
  pathname :: string
  st_mode :: file_type
  perm :: nat
  size :: int
  data :: string

text \<open>
  \<^verbatim>\<open>archive_read_next_header\<close> yields the next entry (\<^verbatim>\<open>ARCHIVE_OK\<close>), fails with an error
  number, or finds the end of the stream (the end of the list).
\<close>

datatype archive_header = Header archive_entry | Header_error int

record files_plist =
  files :: "(string \<times> string) list"
  conf_files :: "(string \<times> string) list"
  links :: "string list"

record props_plist =
  props_conf_files :: "string list"

record xbps_unpack_cb_data =
  xucd_entry :: string
  xucd_entry_size :: int
  entry_extract_count :: int
  entry_total_count :: int
  entry_is_metadata :: bool
  entry_is_conf :: bool

text \<open>Every call that leaves the process is recorded, in order, in the trace.\<close>

datatype event =
    Set_cb_state xbps_state int
  | Set_pkg_state_installed string pkg_state
  | Access string
  | Mkpath string
  | Chdir string
  | Unlink string
  | Rename string string
  | File_exec string "string list"
  | Archive_read_extract archive_entry extract_flags
  | Archive_read_data_skip string
  | Unpack_cb xbps_unpack_cb_data

text \<open>
  The world outside the process: the regular files on disk (path to content), the
  directories that can be accessed, \<^verbatim>\<open>errno\<close>, the persisted package states and the
  trace.
\<close>

record world =
  w_disk :: "string \<rightharpoonup> string"
  w_dirs :: "string set"
  w_errno :: int
  w_states :: "string \<rightharpoonup> pkg_state"
  w_trace :: "event list"

record xbps_handle =
  rootdir :: string
  conffile :: string
  unpack_cb :: bool

text \<open>
  What the file calls and the two source files do not contain is a parameter: the
  constants of \<^verbatim>\<open>xbps_api_impl.h\<close>, its helpers, and the outcomes of the calls into libc
  and libarchive. A call that fails with an error number returns \<open>Inl\<close> of it (and
  \<^verbatim>\<open>errno\<close> then holds it); an \<open>_errno\<close> field gives the error number with which a call
  on that path fails, 0 when it succeeds.
\<close>

record env =
  XBPS_META_PATH :: string
  XBPS_PKGPROPS :: string
  XBPS_PKGFILES :: string
  geteuid :: nat
  malloc_xucd :: bool
  strdup_ok :: "string \<Rightarrow> bool"
  dirname :: "string \<Rightarrow> string"
  access_errno :: "string \<Rightarrow> int"
  chdir_errno :: "string \<Rightarrow> int"
  unlink_errno :: "string \<Rightarrow> int"
  rename_errno :: "string \<Rightarrow> string \<Rightarrow> int"
  mkpath_errno :: "string \<Rightarrow> int"
  xbps_pkg_name :: "string \<Rightarrow> string option"
  xbps_pkg_version :: "string \<Rightarrow> string option"
  xasprintf_ok :: "string \<Rightarrow> bool"
  file_exec_result ::
    "string \<Rightarrow> string list \<Rightarrow> (string \<rightharpoonup> string) \<Rightarrow> int \<times> (string \<rightharpoonup> string)"
  xbps_dictionary_from_archive_entry :: "archive_entry \<Rightarrow> int + files_plist"
  xbps_dictionary_from_metadata_plist ::
    "(string \<rightharpoonup> string) \<Rightarrow> string \<Rightarrow> string \<Rightarrow> int + props_plist"
  xbps_entry_is_a_conf_file :: "props_plist \<Rightarrow> string \<Rightarrow> bool"
  xbps_file_hash_check_dictionary ::
    "(string \<rightharpoonup> string) \<Rightarrow> files_plist \<Rightarrow> string \<Rightarrow> string \<Rightarrow> int"
  xbps_entry_install_conf_file ::
    "(string \<rightharpoonup> string) \<Rightarrow> files_plist \<Rightarrow> archive_entry \<Rightarrow> string \<Rightarrow> string \<Rightarrow> string \<Rightarrow>
     int \<times> archive_entry"
  xbps_remove_obsoletes ::
    "string \<Rightarrow> string \<Rightarrow> string \<Rightarrow> files_plist \<Rightarrow> files_plist option \<Rightarrow> (string \<rightharpoonup> string) \<Rightarrow>
     int \<times> (string \<rightharpoonup> string) \<times> int option"
  prop_dictionary_internalize_from_zfile :: "(string \<rightharpoonup> string) \<Rightarrow> string \<Rightarrow> int + files_plist"
  prop_dictionary_externalize_to_zfile :: "files_plist option \<Rightarrow> string \<Rightarrow> int + string"
  set_pkg_state_errno :: "string \<Rightarrow> pkg_state \<Rightarrow> int"
  xbps_path_from_repository_uri :: "pkg_dict \<Rightarrow> string option \<Rightarrow> int + string"
  archive_read_new :: bool
  archive_read_open_filename :: "string \<Rightarrow> int + archive_header list"
  archive_extract_errno :: "archive_entry \<Rightarrow> extract_flags \<Rightarrow> int option"

text \<open>
  The locals of \<^verbatim>\<open>unpack_archive\<close> that live across iterations of its loop, and the
  error number of the archive handle (\<^verbatim>\<open>archive_errno(ar)\<close>). The counters are
  \<^verbatim>\<open>size_t\<close>; an archive has fewer than \<open>2 ^ 64\<close> entries, so they do not wrap.
\<close>

record unpack_state =
  propsd :: "props_plist option"
  filesd :: "files_plist option"
  nmetadata :: nat
  entry_idx :: nat
  xucd :: "xbps_unpack_cb_data option"
  ar_errno :: int

text \<open>
  Where control goes after a piece of the function: on to the next statement, or to
  the label \<^verbatim>\<open>out\<close> with the value of \<^verbatim>\<open>rv\<close>. (What follows \<^verbatim>\<open>out\<close> only frees memory.)
\<close>

datatype ctl = Next unpack_state world | Out int world

fun ctl_world :: "ctl \<Rightarrow> world" where
  "ctl_world (Next st w) = w"
| "ctl_world (Out rv w) = w"

subsection \<open>Calls that leave the process\<close>

definition log_event :: "event \<Rightarrow> world \<Rightarrow> world" where
  "log_event ev w = w\<lparr>w_trace := w_trace w @ [ev]\<rparr>"

text \<open>\<^verbatim>\<open>xbps_xasprintf\<close> returns the formatted string, or \<^verbatim>\<open>NULL\<close> when it cannot allocate.\<close>

definition xbps_xasprintf :: "env \<Rightarrow> string \<Rightarrow> string option" where
  "xbps_xasprintf c s = (if xasprintf_ok c s then Some s else None)"

definition xbps_set_cb_state :: "xbps_state \<Rightarrow> int \<Rightarrow> world \<Rightarrow> world" where
  "xbps_set_cb_state s err w = log_event (Set_cb_state s err) w"

definition c_access :: "env \<Rightarrow> string \<Rightarrow> world \<Rightarrow> bool \<times> world" where
  "c_access c p w =
     (if p \<in> w_dirs w \<or> w_disk w p \<noteq> None then (True, log_event (Access p) w)
      else (False, log_event (Access p) (w\<lparr>w_errno := access_errno c p\<rparr>)))"

definition xbps_mkpath :: "env \<Rightarrow> string \<Rightarrow> world \<Rightarrow> bool \<times> world" where
  "xbps_mkpath c p w =
     (if mkpath_errno c p = 0
      then (True, log_event (Mkpath p) (w\<lparr>w_dirs := insert p (w_dirs w)\<rparr>))
      else (False, log_event (Mkpath p) (w\<lparr>w_errno := mkpath_errno c p\<rparr>)))"

definition c_chdir :: "env \<Rightarrow> string \<Rightarrow> world \<Rightarrow> bool \<times> world" where
  "c_chdir c p w =
     (if chdir_errno c p = 0 then (True, log_event (Chdir p) w)
      else (False, log_event (Chdir p) (w\<lparr>w_errno := chdir_errno c p\<rparr>)))"

definition c_unlink :: "env \<Rightarrow> string \<Rightarrow> world \<Rightarrow> bool \<times> world" where
  "c_unlink c p w =
     (if w_disk w p = None then (False, log_event (Unlink p) (w\<lparr>w_errno := ENOENT\<rparr>))
      else if unlink_errno c p \<noteq> 0
      then (False, log_event (Unlink p) (w\<lparr>w_errno := unlink_errno c p\<rparr>))
      else (True, log_event (Unlink p) (w\<lparr>w_disk := (w_disk w)(p := None)\<rparr>)))"

definition c_rename :: "env \<Rightarrow> string \<Rightarrow> string \<Rightarrow> world \<Rightarrow> bool \<times> world" where
  "c_rename c old new w =
     (case w_disk w old of
        None \<Rightarrow> (False, log_event (Rename old new) (w\<lparr>w_errno := ENOENT\<rparr>))
      | Some content \<Rightarrow>
          if rename_errno c old new \<noteq> 0
          then (False, log_event (Rename old new) (w\<lparr>w_errno := rename_errno c old new\<rparr>))
          else (True, log_event (Rename old new)
                  (w\<lparr>w_disk := (w_disk w)(old := None, new \<mapsto> content)\<rparr>)))"

definition xbps_file_exec :: "env \<Rightarrow> string \<Rightarrow> string list \<Rightarrow> world \<Rightarrow> int \<times> world" where
  "xbps_file_exec c file args w =
     (fst (file_exec_result c file args (w_disk w)),
      log_event (File_exec file args)
        (w\<lparr>w_disk := snd (file_exec_result c file args (w_disk w))\<rparr>))"

definition xbps_set_pkg_state_installed ::
  "env \<Rightarrow> string \<Rightarrow> string \<Rightarrow> string \<Rightarrow> pkg_state \<Rightarrow> world \<Rightarrow> int \<times> world" where
  "xbps_set_pkg_state_installed c name ver pv s w =
     (if set_pkg_state_errno c name s = 0
      then (0, log_event (Set_pkg_state_installed name s)
                 (w\<lparr>w_states := (w_states w)(name \<mapsto> s)\<rparr>))
      else (set_pkg_state_errno c name s, log_event (Set_pkg_state_installed name s) w))"

definition archive_read_data_skip :: "archive_entry \<Rightarrow> world \<Rightarrow> world" where
  "archive_read_data_skip entry w = log_event (Archive_read_data_skip (pathname entry)) w"

text \<open>
  \<^verbatim>\<open>archive_read_extract\<close> writes the entry at its pathname, or fails and leaves its
  error number in the archive handle.
\<close>

definition archive_read_extract ::
  "env \<Rightarrow> archive_entry \<Rightarrow> extract_flags \<Rightarrow> unpack_state \<Rightarrow> world \<Rightarrow>
   bool \<times> unpack_state \<times> world" where
  "archive_read_extract c entry flags st w =
     (case archive_extract_errno c entry flags of
        None \<Rightarrow>
          (True, st, log_event (Archive_read_extract entry flags)
                       (w\<lparr>w_disk := (w_disk w)(pathname entry \<mapsto> data entry)\<rparr>))
      | Some e \<Rightarrow>
          (False, st\<lparr>ar_errno := e\<rparr>, log_event (Archive_read_extract entry flags) w))"

subsection \<open>\<^verbatim>\<open>set_extract_flags\<close>, \<^verbatim>\<open>extract_metafile\<close>, \<^verbatim>\<open>remove_metafile\<close>\<close>

definition set_extract_flags :: "env \<Rightarrow> extract_flags" where
  "set_extract_flags c = (if geteuid c = 0 then FEXTRACT_FLAGS else EXTRACT_FLAGS)"

definition metadata_path :: "env \<Rightarrow> string \<Rightarrow> string \<Rightarrow> string" where
  "metadata_path c name file = XBPS_META_PATH c @ ''/metadata/'' @ name @ ''/'' @ file"

definition extract_metafile ::
  "env \<Rightarrow> archive_entry \<Rightarrow> string \<Rightarrow> string \<Rightarrow> bool \<Rightarrow> extract_flags \<Rightarrow> unpack_state \<Rightarrow> world \<Rightarrow>
   int \<times> unpack_state \<times> world" where
  "extract_metafile c entry file pv exec flags st w =
     (case xbps_pkg_name c pv of
        None \<Rightarrow> (ENOMEM, st, w)
      | Some name \<Rightarrow>
     (case xbps_pkg_version c pv of
        None \<Rightarrow> (ENOMEM, st, w)
      | Some ver \<Rightarrow>
     (case xbps_xasprintf c (metadata_path c name file) of
        None \<Rightarrow> (ENOMEM, st, w)
      | Some buf \<Rightarrow>
          if \<not> strdup_ok c buf then (ENOMEM, st, w)
          else
          (case c_access c (dirname c buf) w of (ok, w1) \<Rightarrow>
          (case (if ok then (True, w1) else xbps_mkpath c (dirname c buf) w1) of (ok2, w2) \<Rightarrow>
             if \<not> ok2
             then (w_errno w2, st, xbps_set_cb_state XBPS_STATE_UNPACK_FAIL (w_errno w2) w2)
             else
             (case archive_read_extract c
                     (entry\<lparr>pathname := buf, perm := (if exec then 488 else perm entry)\<rparr>)
                     flags st w2 of (ok3, st3, w3) \<Rightarrow>
                if \<not> ok3
                then (ar_errno st3, st3,
                      xbps_set_cb_state XBPS_STATE_UNPACK_FAIL (ar_errno st3) w3)
                else (0, st3, w3)))))))"

definition remove_metafile :: "env \<Rightarrow> string \<Rightarrow> string \<Rightarrow> world \<Rightarrow> int \<times> world" where
  "remove_metafile c file pv w =
     (case xbps_pkg_name c pv of
        None \<Rightarrow> (ENOMEM, w)
      | Some name \<Rightarrow>
     (case xbps_pkg_version c pv of
        None \<Rightarrow> (ENOMEM, w)
      | Some ver \<Rightarrow>
     (case xbps_xasprintf c (metadata_path c name file) of
        None \<Rightarrow> (ENOMEM, w)
      | Some buf \<Rightarrow>
          (case c_unlink c buf w of (ok, w1) \<Rightarrow>
             if \<not> ok \<and> w_errno w1 \<noteq> 0 \<and> w_errno w1 \<noteq> ENOENT
             then (w_errno w1, xbps_set_cb_state XBPS_STATE_UNPACK_FAIL (w_errno w1) w1)
             else (0, w1)))))"

subsection \<open>\<^verbatim>\<open>unpack_archive\<close>\<close>

text \<open>
  Lines 211 to 252: the progress data, the root directory, and on an update the removal
  of the \<^verbatim>\<open>INSTALL\<close> and \<^verbatim>\<open>REMOVE\<close> scripts of the installed version. The fields of the
  progress data that \<^verbatim>\<open>malloc\<close> leaves uninitialised are assigned at the top of every
  iteration before they are read.
\<close>

definition unpack_state_init :: "xbps_handle \<Rightarrow> unpack_state" where
  "unpack_state_init xhp =
     \<lparr>propsd = None, filesd = None, nmetadata = 0, entry_idx = 0,
      xucd = (if unpack_cb xhp
              then Some \<lparr>xucd_entry = [], xucd_entry_size = 0, entry_extract_count = 0,
                         entry_total_count = 0, entry_is_metadata = False,
                         entry_is_conf = False\<rparr>
              else None),
      ar_errno = 0\<rparr>"

definition unpack_begin :: "env \<Rightarrow> xbps_handle \<Rightarrow> pkg_dict \<Rightarrow> world \<Rightarrow> ctl" where
  "unpack_begin c xhp pkg_repod w =
     (if unpack_cb xhp \<and> \<not> malloc_xucd c then Out ENOMEM w
      else
      (case c_access c (rootdir xhp) w of (ok, w1) \<Rightarrow>
         if \<not> ok \<and> w_errno w1 \<noteq> ENOENT then Out (w_errno w1) w1
         else
         (case (if ok then (True, w1) else xbps_mkpath c (rootdir xhp) w1) of (ok2, w2) \<Rightarrow>
            if \<not> ok2 then Out (w_errno w2) w2
            else
            (case c_chdir c (rootdir xhp) w2 of (ok3, w3) \<Rightarrow>
               if \<not> ok3
               then Out (w_errno w3) (xbps_set_cb_state XBPS_STATE_UNPACK_FAIL (w_errno w3) w3)
               else if transaction pkg_repod = ''update''
               then
                 (case remove_metafile c ''INSTALL'' (pkgver pkg_repod) w3 of (rv4, w4) \<Rightarrow>
                    if rv4 \<noteq> 0 then Out rv4 w4
                    else
                    (case remove_metafile c ''REMOVE'' (pkgver pkg_repod) w4 of (rv5, w5) \<Rightarrow>
                       if rv5 \<noteq> 0 then Out rv5 w5
                       else Next (unpack_state_init xhp) w5))
               else Next (unpack_state_init xhp) w3))))"

text \<open>Lines 270 to 275.\<close>

definition xucd_prepare :: "archive_entry \<Rightarrow> unpack_state \<Rightarrow> unpack_state" where
  "xucd_prepare entry st =
     st\<lparr>xucd := map_option
          (\<lambda>x. x\<lparr>xucd_entry := pathname entry, xucd_entry_size := size entry,
                 entry_is_metadata := False, entry_is_conf := False\<rparr>) (xucd st)\<rparr>"

text \<open>
  The end of each of the four metadata branches: \<^verbatim>\<open>nmetadata++\<close>, the progress callback,
  \<^verbatim>\<open>continue\<close>.
\<close>

definition metadata_done :: "unpack_state \<Rightarrow> world \<Rightarrow> ctl" where
  "metadata_done st w =
     (case xucd st of
        None \<Rightarrow> Next (st\<lparr>nmetadata := nmetadata st + 1\<rparr>) w
      | Some x \<Rightarrow>
          Next (st\<lparr>nmetadata := nmetadata st + 1,
                   xucd := Some (x\<lparr>entry_is_metadata := True,
                                   entry_extract_count := entry_extract_count x + 1\<rparr>)\<rparr>)
               (log_event (Unpack_cb (x\<lparr>entry_is_metadata := True,
                                         entry_extract_count := entry_extract_count x + 1\<rparr>)) w))"

text \<open>Lines 276 to 311: the entry \<^verbatim>\<open>./INSTALL\<close>.\<close>

definition unpack_install_script ::
  "env \<Rightarrow> xbps_handle \<Rightarrow> pkg_dict \<Rightarrow> bool \<Rightarrow> archive_entry \<Rightarrow> extract_flags \<Rightarrow>
   unpack_state \<Rightarrow> world \<Rightarrow> ctl" where
  "unpack_install_script c xhp pkg_repod upd entry flags st w =
     (case xbps_xasprintf c (metadata_path c (pkgname pkg_repod) ''INSTALL'') of
        None \<Rightarrow> Out ENOMEM w
      | Some buf \<Rightarrow>
          (case extract_metafile c entry ''INSTALL'' (pkgver pkg_repod) True flags st w of
             (rv, st1, w1) \<Rightarrow>
               if rv \<noteq> 0 then Out rv w1
               else
               (case xbps_file_exec c buf
                       [''pre'', pkgname pkg_repod, version pkg_repod,
                        if upd then ''yes'' else ''no'', conffile xhp] w1 of
                  (rv2, w2) \<Rightarrow>
                    if rv2 \<noteq> 0
                    then Out rv2 (xbps_set_cb_state XBPS_STATE_UNPACK_FAIL rv2 w2)
                    else metadata_done st1 w2)))"

text \<open>Lines 313 to 325: the entry \<^verbatim>\<open>./REMOVE\<close>.\<close>

definition unpack_remove_script ::
  "env \<Rightarrow> pkg_dict \<Rightarrow> archive_entry \<Rightarrow> extract_flags \<Rightarrow> unpack_state \<Rightarrow> world \<Rightarrow> ctl" where
  "unpack_remove_script c pkg_repod entry flags st w =
     (case extract_metafile c entry ''REMOVE'' (pkgver pkg_repod) True flags st w of
        (rv, st1, w1) \<Rightarrow> if rv \<noteq> 0 then Out rv w1 else metadata_done st1 w1)"

text \<open>Lines 327 to 344: the entry \<^verbatim>\<open>./files.plist\<close>.\<close>

definition unpack_files_plist ::
  "env \<Rightarrow> archive_entry \<Rightarrow> unpack_state \<Rightarrow> world \<Rightarrow> ctl" where
  "unpack_files_plist c entry st w =
     (case xbps_dictionary_from_archive_entry c entry of
        Inl e \<Rightarrow> Out e (w\<lparr>w_errno := e\<rparr>)
      | Inr d \<Rightarrow> metadata_done (st\<lparr>filesd := Some d\<rparr>) w)"

text \<open>Lines 346 to 364: the entry \<^verbatim>\<open>./props.plist\<close>.\<close>

definition unpack_props_plist ::
  "env \<Rightarrow> pkg_dict \<Rightarrow> archive_entry \<Rightarrow> extract_flags \<Rightarrow> unpack_state \<Rightarrow> world \<Rightarrow> ctl" where
  "unpack_props_plist c pkg_repod entry flags st w =
     (case extract_metafile c entry (XBPS_PKGPROPS c) (pkgver pkg_repod) False flags st w of
        (rv, st1, w1) \<Rightarrow>
          if rv \<noteq> 0 then Out rv w1
          else
          (case xbps_dictionary_from_metadata_plist c (w_disk w1) (pkgname pkg_repod)
                  (XBPS_PKGPROPS c) of
             Inl e \<Rightarrow> Out e (w1\<lparr>w_errno := e\<rparr>)
           | Inr d \<Rightarrow> metadata_done (st1\<lparr>propsd := Some d\<rparr>) w1))"

text \<open>
  Lines 366 to 388: an entry that is none of the four, before both dictionaries are
  there.
\<close>

definition unpack_skip_early :: "archive_entry \<Rightarrow> unpack_state \<Rightarrow> world \<Rightarrow> ctl" where
  "unpack_skip_early entry st w =
     (if 3 \<le> entry_idx st
      then Out ENODEV
             (xbps_set_cb_state XBPS_STATE_UNPACK_FAIL ENODEV (archive_read_data_skip entry w))
      else Next (st\<lparr>entry_idx := entry_idx st + 1\<rparr>) (archive_read_data_skip entry w))"

text \<open>Lines 393 to 404.\<close>

definition xucd_total :: "files_plist \<Rightarrow> unpack_state \<Rightarrow> unpack_state" where
  "xucd_total fd st =
     st\<lparr>xucd := map_option
          (\<lambda>x. x\<lparr>entry_total_count :=
                   int (nmetadata st) + int (length (files fd)) + int (length (conf_files fd))
                   + int (length (links fd))\<rparr>) (xucd st)\<rparr>"

text \<open>Lines 481 to 495: extract the entry, call the progress callback.\<close>

definition unpack_extract ::
  "env \<Rightarrow> archive_entry \<Rightarrow> extract_flags \<Rightarrow> unpack_state \<Rightarrow> world \<Rightarrow> ctl" where
  "unpack_extract c entry flags st w =
     (case archive_read_extract c entry flags st w of (ok, st1, w1) \<Rightarrow>
        (case (if ok then w1
               else xbps_set_cb_state XBPS_STATE_UNPACK_FAIL (ar_errno st1) w1) of w2 \<Rightarrow>
           (case xucd st1 of
              None \<Rightarrow> Next st1 w2
            | Some x \<Rightarrow>
                Next (st1\<lparr>xucd := Some (x\<lparr>entry_extract_count := entry_extract_count x + 1\<rparr>)\<rparr>)
                     (log_event
                        (Unpack_cb (x\<lparr>entry_extract_count := entry_extract_count x + 1\<rparr>)) w2))))"

text \<open>
  Lines 439 to 480, for an entry whose file is on disk with another hash or is not on
  disk: a configuration file on disk is renamed on an install and handed to
  \<^verbatim>\<open>xbps_entry_install_conf_file\<close> on an update. That helper may rename the entry.
\<close>

definition unpack_conf_file ::
  "env \<Rightarrow> pkg_dict \<Rightarrow> bool \<Rightarrow> files_plist \<Rightarrow> bool \<Rightarrow> bool \<Rightarrow> archive_entry \<Rightarrow>
   extract_flags \<Rightarrow> unpack_state \<Rightarrow> world \<Rightarrow> ctl" where
  "unpack_conf_file c pkg_repod upd fd conf_file file_exists entry flags st w =
     (if \<not> upd \<and> conf_file \<and> file_exists
      then
        (case xbps_xasprintf c (pathname entry @ ''.old'') of
           None \<Rightarrow> Out ENOMEM w
         | Some buf \<Rightarrow>
             unpack_extract c entry flags st
               (xbps_set_cb_state XBPS_STATE_CONFIG_FILE 0
                  (snd (c_rename c (pathname entry) buf w))))
      else if upd \<and> conf_file \<and> file_exists
      then
        (case xbps_entry_install_conf_file c (w_disk w) fd entry (pathname entry)
                (pkgname pkg_repod) (version pkg_repod) of
           (rv, entry1) \<Rightarrow>
             if rv = - 1
             then Out rv w
             else if rv = 0
             then Next (st\<lparr>xucd := map_option (\<lambda>x. x\<lparr>entry_is_conf := True\<rparr>) (xucd st)\<rparr>)
                       (archive_read_data_skip entry1 w)
             else unpack_extract c entry1 flags
                    (st\<lparr>xucd := map_option (\<lambda>x. x\<lparr>entry_is_conf := True\<rparr>) (xucd st)\<rparr>) w)
      else unpack_extract c entry flags st w)"

text \<open>
  Lines 389 to 438: both dictionaries are there. A regular file that is on disk is
  compared with the hash recorded in the new \<^verbatim>\<open>files.plist\<close>; the check returns -1 on an
  error and 0 when the hashes match.
\<close>

definition unpack_file ::
  "env \<Rightarrow> pkg_dict \<Rightarrow> bool \<Rightarrow> props_plist \<Rightarrow> files_plist \<Rightarrow> archive_entry \<Rightarrow>
   extract_flags \<Rightarrow> unpack_state \<Rightarrow> world \<Rightarrow> ctl" where
  "unpack_file c pkg_repod upd pd fd entry flags st0 w =
     (case xucd_total fd st0 of st \<Rightarrow>
        if st_mode entry = S_IFREG
        then
          (case c_access c (pathname entry) w of (ok, w1) \<Rightarrow>
             if ok
             then
               (case xbps_file_hash_check_dictionary c (w_disk w1) fd
                       (if xbps_entry_is_a_conf_file c pd (pathname entry)
                        then ''conf_files'' else ''files'') (pathname entry) of rv \<Rightarrow>
                  if rv = - 1 then Out rv w1
                  else if rv = 0 then Next st (archive_read_data_skip entry w1)
                  else unpack_conf_file c pkg_repod upd fd
                         (xbps_entry_is_a_conf_file c pd (pathname entry)) True entry flags st w1)
             else unpack_conf_file c pkg_repod upd fd
                    (xbps_entry_is_a_conf_file c pd (pathname entry)) False entry flags st w1)
        else unpack_conf_file c pkg_repod upd fd False False entry flags st w)"

text \<open>The four pathnames that the loop handles as metadata (lines 276 to 365).\<close>

definition is_metadata_path :: "string \<Rightarrow> bool" where
  "is_metadata_path p =
     (p = ''./INSTALL'' \<or> p = ''./REMOVE'' \<or> p = ''./files.plist'' \<or> p = ''./props.plist'')"

text \<open>Lines 257 to 495: the body of the loop, for one entry.\<close>

definition unpack_entry ::
  "env \<Rightarrow> xbps_handle \<Rightarrow> pkg_dict \<Rightarrow> bool \<Rightarrow> archive_entry \<Rightarrow> unpack_state \<Rightarrow> world \<Rightarrow> ctl" where
  "unpack_entry c xhp pkg_repod upd entry st0 w =
     (if st_mode entry = S_IFDIR then Next st0 (archive_read_data_skip entry w)
      else
      (case xucd_prepare entry st0 of st \<Rightarrow>
         if pathname entry = ''./INSTALL''
         then unpack_install_script c xhp pkg_repod upd entry (set_extract_flags c) st w
         else if pathname entry = ''./REMOVE''
         then unpack_remove_script c pkg_repod entry (set_extract_flags c) st w
         else if pathname entry = ''./files.plist''
         then unpack_files_plist c entry st w
         else if pathname entry = ''./props.plist''
         then unpack_props_plist c pkg_repod entry (set_extract_flags c) st w
         else
         (case (propsd st, filesd st) of
            (Some pd, Some fd) \<Rightarrow>
              unpack_file c pkg_repod upd pd fd entry (set_extract_flags c) st w
          | _ \<Rightarrow> unpack_skip_early entry st w)))"

text \<open>
  Line 256: the loop runs while \<^verbatim>\<open>archive_read_next_header\<close> returns \<^verbatim>\<open>ARCHIVE_OK\<close>. libarchive
  clears the error number of the handle when it starts to read a header, and sets it
  when the read fails.
\<close>

fun unpack_loop ::
  "env \<Rightarrow> xbps_handle \<Rightarrow> pkg_dict \<Rightarrow> bool \<Rightarrow> archive_header list \<Rightarrow> unpack_state \<Rightarrow> world \<Rightarrow>
   ctl" where
  "unpack_loop c xhp pkg_repod upd [] st w = Next (st\<lparr>ar_errno := 0\<rparr>) w"
| "unpack_loop c xhp pkg_repod upd (Header_error e # rest) st w = Next (st\<lparr>ar_errno := e\<rparr>) w"
| "unpack_loop c xhp pkg_repod upd (Header entry # rest) st w =
     (case unpack_entry c xhp pkg_repod upd entry (st\<lparr>ar_errno := 0\<rparr>) w of
        Next st1 w1 \<Rightarrow> unpack_loop c xhp pkg_repod upd rest st1 w1
      | Out rv w1 \<Rightarrow> Out rv w1)"

text \<open>
  The iterations of the loop over the first entries of a stream, without the read that
  ends it.
\<close>

fun unpack_entries ::
  "env \<Rightarrow> xbps_handle \<Rightarrow> pkg_dict \<Rightarrow> bool \<Rightarrow> archive_entry list \<Rightarrow> unpack_state \<Rightarrow> world \<Rightarrow>
   ctl" where
  "unpack_entries c xhp pkg_repod upd [] st w = Next st w"
| "unpack_entries c xhp pkg_repod upd (entry # rest) st w =
     (case unpack_entry c xhp pkg_repod upd entry (st\<lparr>ar_errno := 0\<rparr>) w of
        Next st1 w1 \<Rightarrow> unpack_entries c xhp pkg_repod upd rest st1 w1
      | Out rv w1 \<Rightarrow> Out rv w1)"

text \<open>Lines 534 to 561, from the label \<^verbatim>\<open>out1\<close>.\<close>

definition unpack_metadata ::
  "env \<Rightarrow> pkg_dict \<Rightarrow> string \<Rightarrow> int \<Rightarrow> unpack_state \<Rightarrow> world \<Rightarrow> int \<times> world" where
  "unpack_metadata c pkg_repod pkgfilesd rv st w =
     (case xbps_xasprintf c (XBPS_META_PATH c @ ''/metadata/'' @ pkgname pkg_repod) of
        None \<Rightarrow> (ENOMEM, w)
      | Some buf \<Rightarrow>
          (case xbps_mkpath c buf w of (ok, w1) \<Rightarrow>
             if \<not> ok
             then (w_errno w1, xbps_set_cb_state XBPS_STATE_UNPACK_FAIL (w_errno w1) w1)
             else
             (case prop_dictionary_externalize_to_zfile c (filesd st) pkgfilesd of
                Inl e \<Rightarrow> (e, xbps_set_cb_state XBPS_STATE_UNPACK_FAIL e (w1\<lparr>w_errno := e\<rparr>))
              | Inr content \<Rightarrow> (rv, w1\<lparr>w_disk := (w_disk w1)(pkgfilesd \<mapsto> content)\<rparr>))))"

text \<open>Lines 496 to 533, after the loop.\<close>

definition unpack_finish ::
  "env \<Rightarrow> pkg_dict \<Rightarrow> bool \<Rightarrow> unpack_state \<Rightarrow> world \<Rightarrow> int \<times> world" where
  "unpack_finish c pkg_repod upd st w =
     (if ar_errno st \<noteq> 0
      then (ar_errno st, xbps_set_cb_state XBPS_STATE_UNPACK_FAIL (ar_errno st) w)
      else
      (case xbps_xasprintf c (metadata_path c (pkgname pkg_repod) (XBPS_PKGFILES c)) of
         None \<Rightarrow> (ENOMEM, w)
       | Some pkgfilesd \<Rightarrow>
           if preserve pkg_repod \<or> \<not> upd
           then unpack_metadata c pkg_repod pkgfilesd (ar_errno st) st w
           else
           (case prop_dictionary_internalize_from_zfile c (w_disk w) pkgfilesd of
              Inr old_filesd \<Rightarrow>
                (case xbps_remove_obsoletes c (pkgname pkg_repod) (version pkg_repod)
                        (pkgver pkg_repod) old_filesd (filesd st) (w_disk w) of
                   (rv, disk1, e) \<Rightarrow>
                     if rv \<noteq> 0
                     then (assign_errno e (w_errno w),
                           w\<lparr>w_disk := disk1, w_errno := assign_errno e (w_errno w)\<rparr>)
                     else unpack_metadata c pkg_repod pkgfilesd rv st
                            (w\<lparr>w_disk := disk1, w_errno := assign_errno e (w_errno w)\<rparr>))
            | Inl e \<Rightarrow>
                if e \<noteq> 0 \<and> e \<noteq> ENOENT then (e, w\<lparr>w_errno := e\<rparr>)
                else unpack_metadata c pkg_repod pkgfilesd (ar_errno st) st (w\<lparr>w_errno := e\<rparr>))))"

definition unpack_archive ::
  "env \<Rightarrow> xbps_handle \<Rightarrow> pkg_dict \<Rightarrow> archive_header list \<Rightarrow> world \<Rightarrow> int \<times> world" where
  "unpack_archive c xhp pkg_repod ar w =
     (case unpack_begin c xhp pkg_repod w of
        Out rv w1 \<Rightarrow> (rv, w1)
      | Next st1 w1 \<Rightarrow>
          (case unpack_loop c xhp pkg_repod (transaction pkg_repod = ''update'') ar st1 w1 of
             Out rv w2 \<Rightarrow> (rv, w2)
           | Next st2 w2 \<Rightarrow>
               unpack_finish c pkg_repod (transaction pkg_repod = ''update'') st2 w2))"

subsection \<open>\<^verbatim>\<open>xbps_unpack_binary_pkg\<close>\<close>

definition xbps_unpack_binary_pkg ::
  "env \<Rightarrow> xbps_handle \<Rightarrow> pkg_dict \<Rightarrow> world \<Rightarrow> int \<times> world" where
  "xbps_unpack_binary_pkg c xhp pkg_repod w0 =
     (case xbps_set_cb_state XBPS_STATE_UNPACK 0 w0 of w \<Rightarrow>
     (case xbps_path_from_repository_uri c pkg_repod (repository pkg_repod) of
        Inl e \<Rightarrow> (e, xbps_set_cb_state XBPS_STATE_UNPACK_FAIL e (w\<lparr>w_errno := e\<rparr>))
      | Inr bpkg \<Rightarrow>
          if \<not> archive_read_new c then (ENOMEM, w)
          else
          (case archive_read_open_filename c bpkg of
             Inl rv \<Rightarrow> (rv, xbps_set_cb_state XBPS_STATE_UNPACK_FAIL rv w)
           | Inr ar \<Rightarrow>
               (case xbps_set_pkg_state_installed c (pkgname pkg_repod) (version pkg_repod)
                       (pkgver pkg_repod) XBPS_PKG_STATE_HALF_UNPACKED w of
                  (rv1, w1) \<Rightarrow>
                    if rv1 \<noteq> 0
                    then (rv1, xbps_set_cb_state XBPS_STATE_UNPACK_FAIL rv1 w1)
                    else
                    (case unpack_archive c xhp pkg_repod ar w1 of
                       (rv2, w2) \<Rightarrow>
                         if rv2 \<noteq> 0
                         then (rv2, xbps_set_cb_state XBPS_STATE_UNPACK_FAIL rv2 w2)
                         else
                         (case xbps_set_pkg_state_installed c (pkgname pkg_repod)
                                 (version pkg_repod) (pkgver pkg_repod)
                                 XBPS_PKG_STATE_UNPACKED w2 of
                            (rv3, w3) \<Rightarrow>
                              if rv3 \<noteq> 0
                              then (rv3, xbps_set_cb_state XBPS_STATE_UNPACK_FAIL rv3 w3)
                              else (rv3, w3)))))))"

subsection \<open>An instance of the environment\<close>

text \<open>
  Modelled from the spec: the helpers of \<^verbatim>\<open>xbps_api_impl.h\<close> are not in the two source
  files. In this instance no allocation fails and no call into libc fails for a reason
  other than a missing file. A \<^verbatim>\<open>pkgver\<close> is "\<^verbatim>\<open>name-version\<close>" (glossary). The metadata
  directory of a package is "\<^verbatim>\<open><meta-root>/<pkgname>/\<close>" under \<^verbatim>\<open>metadata\<close>. The digest
  check is the spec's "compute digest / compare digest" on the file on disk and the
  digest that the manifest records for the path: 0 when they are equal, \<^verbatim>\<open>ERANGE\<close> when
  they differ, -1 when the file or the record is missing. An entry is a configuration
  file when the properties list its path. The obsolete files are the spec's "paths
  present in the previous manifest's files, conf_files, and links collections but absent
  from the corresponding new-manifest collections". The decoding of the two plists is
  given to the instance: \<open>fd\<close> is what \<^verbatim>\<open>./files.plist\<close> holds, \<open>pd\<close> what
  \<^verbatim>\<open>./props.plist\<close> holds, \<open>ar\<close> the stream of the binary package of the repository.
\<close>

definition sha256 :: "string \<Rightarrow> string" where
  "sha256 content = ''sha256:'' @ content"

definition pkg_name_part :: "string \<Rightarrow> string" where
  "pkg_name_part pv = rev (drop 1 (dropWhile (\<lambda>c. c \<noteq> CHR ''-'') (rev pv)))"

definition dirname_part :: "string \<Rightarrow> string" where
  "dirname_part p = rev (drop 1 (dropWhile (\<lambda>c. c \<noteq> CHR ''/'') (rev p)))"

definition hash_check :: "(string \<rightharpoonup> string) \<Rightarrow> files_plist \<Rightarrow> string \<Rightarrow> string \<Rightarrow> int" where
  "hash_check disk fd key p =
     (case (disk p, map_of (if key = ''conf_files'' then conf_files fd else files fd) p) of
        (Some content, Some h) \<Rightarrow> if sha256 content = h then 0 else ERANGE
      | _ \<Rightarrow> - 1)"

definition obsolete_paths :: "files_plist \<Rightarrow> files_plist option \<Rightarrow> string list" where
  "obsolete_paths old new =
     (case new of
        None \<Rightarrow> map fst (files old) @ map fst (conf_files old) @ links old
      | Some n \<Rightarrow>
          filter (\<lambda>p. p \<notin> set (map fst (files n))) (map fst (files old))
          @ filter (\<lambda>p. p \<notin> set (map fst (conf_files n))) (map fst (conf_files old))
          @ filter (\<lambda>p. p \<notin> set (links n)) (links old))"

definition sample_env :: "files_plist \<Rightarrow> props_plist \<Rightarrow> archive_header list \<Rightarrow> env" where
  "sample_env fd pd ar =
     \<lparr>XBPS_META_PATH = ''var/db/xbps'',
      XBPS_PKGPROPS = ''props.plist'',
      XBPS_PKGFILES = ''files.plist'',
      geteuid = 0,
      malloc_xucd = True,
      strdup_ok = (\<lambda>s. True),
      dirname = dirname_part,
      access_errno = (\<lambda>p. ENOENT),
      chdir_errno = (\<lambda>p. 0),
      unlink_errno = (\<lambda>p. 0),
      rename_errno = (\<lambda>old new. 0),
      mkpath_errno = (\<lambda>p. 0),
      xbps_pkg_name = (\<lambda>pv. Some (pkg_name_part pv)),
      xbps_pkg_version = (\<lambda>pv. Some (version_part pv)),
      xasprintf_ok = (\<lambda>s. True),
      file_exec_result = (\<lambda>file args disk. (0, disk)),
      xbps_dictionary_from_archive_entry = (\<lambda>entry. Inr fd),
      xbps_dictionary_from_metadata_plist =
        (\<lambda>disk name file.
           case disk (''var/db/xbps/metadata/'' @ name @ ''/'' @ file) of
             None \<Rightarrow> Inl ENOENT
           | Some content \<Rightarrow> Inr pd),
      xbps_entry_is_a_conf_file = (\<lambda>d p. p \<in> set (props_conf_files d)),
      xbps_file_hash_check_dictionary = hash_check,
      xbps_entry_install_conf_file = (\<lambda>disk d entry p name ver. (1, entry)),
      xbps_remove_obsoletes =
        (\<lambda>name ver pv old new disk.
           (0, fold (\<lambda>p m. m(p := None)) (obsolete_paths old new) disk, None)),
      prop_dictionary_internalize_from_zfile =
        (\<lambda>disk p. case disk p of None \<Rightarrow> Inl ENOENT
                   | Some content \<Rightarrow> Inr \<lparr>files = [], conf_files = [], links = []\<rparr>),
      prop_dictionary_externalize_to_zfile =
        (\<lambda>d p. case d of None \<Rightarrow> Inl ENOENT
                | Some m \<Rightarrow> Inr (concat (map fst (files m @ conf_files m)))),
      set_pkg_state_errno = (\<lambda>name s. 0),
      xbps_path_from_repository_uri =
        (\<lambda>d repoloc. case repoloc of None \<Rightarrow> Inl ENOENT
                      | Some uri \<Rightarrow> Inr (uri @ ''/'' @ filename d)),
      archive_read_new = True,
      archive_read_open_filename =
        (\<lambda>p. if p = ''repo/foo-1.0.xbps'' then Inr ar else Inl ENOENT),
      archive_extract_errno = (\<lambda>entry flags. None)\<rparr>"

definition sample_handle :: xbps_handle where
  "sample_handle = \<lparr>rootdir = ''/'', conffile = ''/etc/xbps.conf'', unpack_cb = False\<rparr>"

definition sample_world :: "(string \<times> string) list \<Rightarrow> world" where
  "sample_world fs =
     \<lparr>w_disk = map_of fs, w_dirs = {''/''}, w_errno = 0, w_states = Map.empty, w_trace = []\<rparr>"

definition sample_pkg :: "string \<Rightarrow> pkg_dict" where
  "sample_pkg transact =
     (mk_pkg ''foo'' ''1.0'')\<lparr>repository := Some ''repo'', transaction := transact\<rparr>"

definition file_entry :: "string \<Rightarrow> string \<Rightarrow> archive_entry" where
  "file_entry p content =
     \<lparr>pathname = p, st_mode = S_IFREG, perm = 420, size = int (length content),
      data = content\<rparr>"

definition sample_files :: files_plist where
  "sample_files =
     \<lparr>files = [(''./a'', sha256 ''A''), (''./b'', sha256 ''B'')],
      conf_files = [(''./etc/foo.conf'', sha256 ''new'')], links = []\<rparr>"

definition sample_props :: props_plist where
  "sample_props = \<lparr>props_conf_files = [''./etc/foo.conf'']\<rparr>"

definition sample_archive :: "archive_header list" where
  "sample_archive =
     [Header (file_entry ''./files.plist'' ''F''), Header (file_entry ''./props.plist'' ''P''),
      Header (file_entry ''./a'' ''A''), Header (file_entry ''./b'' ''B'')]"


definition script_archive :: "archive_header list" where
  "script_archive =
     [Header (file_entry ''./INSTALL'' ''exit 1''), Header (file_entry ''./files.plist'' ''F''),
      Header (file_entry ''./props.plist'' ''P''), Header (file_entry ''./a'' ''A'')]"

text \<open>The same environment with an \<^verbatim>\<open>INSTALL\<close> script whose pre-install action exits with 1.\<close>

definition failing_script_env :: env where
  "failing_script_env =
     (sample_env sample_files sample_props script_archive)
       \<lparr>file_exec_result := (\<lambda>file args disk. (1, disk))\<rparr>"

text \<open>The same environment where the file \<^verbatim>\<open>./a\<close> cannot be written.\<close>

definition failing_extract_env :: env where
  "failing_extract_env =
     (sample_env sample_files sample_props sample_archive)
       \<lparr>archive_extract_errno :=
          (\<lambda>entry flags. if pathname entry = ''./a'' then Some EACCES else None)\<rparr>"




section \<open>The repository pool: what the code does\<close>

lemma repo_find_pkg_cb_step:
  assumes "\<not> rpf_exact rpf"
  shows "\<exists>errno'. repo_find_pkg_cb api rpi (rpf, errno, dn) =
     (0, rpf\<lparr>rpf_pkgd := map_option (\<lambda>d. d\<lparr>repository := Some (rpi_uri rpi)\<rparr>)
                (spec_repo_lookup api rpi (rpf_pattern rpf) (rpf_bypattern rpf))\<rparr>,
      errno', dn \<or> spec_repo_lookup api rpi (rpf_pattern rpf) (rpf_bypattern rpf) \<noteq> None)"
  using assms
  by (auto simp: repo_find_pkg_cb_def spec_repo_lookup_def store_pkgd_def
      split: option.splits prod.splits)

lemma foreach_find_pkg:
  assumes "\<not> rpf_exact rpf" and "rpf_pkgd rpf = None"
  shows "\<exists>rpf' errno'.
           foreach_from (repo_find_pkg_cb api) pool (rpf, errno, False) = (0, rpf', errno') \<and>
           rpf_pkgd rpf' = spec_find api pool (rpf_pattern rpf) (rpf_bypattern rpf)"
  using assms
proof (induction pool arbitrary: rpf errno)
  case Nil
  then show ?case by simp
next
  case (Cons rpi rest)
  obtain e1 where step: "repo_find_pkg_cb api rpi (rpf, errno, False) =
     (0, rpf\<lparr>rpf_pkgd := map_option (\<lambda>d. d\<lparr>repository := Some (rpi_uri rpi)\<rparr>)
                (spec_repo_lookup api rpi (rpf_pattern rpf) (rpf_bypattern rpf))\<rparr>,
      e1, False \<or> spec_repo_lookup api rpi (rpf_pattern rpf) (rpf_bypattern rpf) \<noteq> None)"
    using repo_find_pkg_cb_step [OF Cons.prems(1)] by blast
  show ?case
  proof (cases "spec_repo_lookup api rpi (rpf_pattern rpf) (rpf_bypattern rpf)")
    case None
    have "\<exists>rpf' errno'.
           foreach_from (repo_find_pkg_cb api) rest (rpf\<lparr>rpf_pkgd := None\<rparr>, e1, False)
             = (0, rpf', errno') \<and>
           rpf_pkgd rpf' = spec_find api rest (rpf_pattern (rpf\<lparr>rpf_pkgd := None\<rparr>))
              (rpf_bypattern (rpf\<lparr>rpf_pkgd := None\<rparr>))"
      by (rule Cons.IH) (simp_all add: Cons.prems)
    with None step show ?thesis by simp
  next
    case (Some d)
    with step show ?thesis by simp
  qed
qed

lemma spec_find_append:
  assumes "\<forall>r\<in>set pre. spec_repo_lookup api r pkg bypat = None"
  shows "spec_find api (pre @ post) pkg bypat = spec_find api post pkg bypat"
  using assms by (induction pre) simp_all

text \<open>
  The callbacks of the exact, by-name, by-pattern and virtual lookups return 0 whatever
  the lookup did; only the callback of the best lookup returns an error number.
\<close>

lemma repo_find_pkg_cb_returns_0: "fst (repo_find_pkg_cb api rpi a) = 0"
  by (auto simp: repo_find_pkg_cb_def split: prod.splits option.splits)

lemma repo_find_virtualpkg_cb_returns_0: "fst (repo_find_virtualpkg_cb api rpi a) = 0"
  by (auto simp: repo_find_virtualpkg_cb_def split: prod.splits option.splits)

text \<open>
  Whatever \<^verbatim>\<open>xbps_cmpver\<close> is, as soon as it does not return 0 for a version below
  the best one, the lower version replaces the best match.
\<close>

lemma best_replaces_on_any_nonzero_comparison:
  assumes "cmp ''foo-1.0'' ''foo-2.0'' \<noteq> 0"
  shows "xbps_repository_pool_find_pkg (plist_api\<lparr>xbps_cmpver := cmp\<rparr>)
      [mk_repo ''repoA'' [mk_pkg ''foo'' ''2.0''], mk_repo ''repoB'' [mk_pkg ''foo'' ''1.0'']]
      ''foo'' False True 0
    = Some (Some ((mk_pkg ''foo'' ''1.0'')\<lparr>repository := Some ''repoB''\<rparr>), ENOENT)"
  using assms
  by (simp add: xbps_repository_pool_find_pkg_def repo_find_pkg.simps
      xbps_repository_pool_find_pkg_exact.simps xbps_repository_pool_foreach_def
      foreach_errno_def repo_find_best_pkg_cb_def repo_find_pkg_cb_def store_pkgd_def
      assign_errno_def rpf_init_def plist_api_def plist_lookup_def mk_repo_def mk_pkg_def)

text \<open>
  C1 (the code does not do what the claim says). Two repositories hold \<^verbatim>\<open>foo\<close>: the first
  version 2.0, the second version 1.0. The best lookup returns version 1.0, which the
  comparator ranks below 2.0: \<^verbatim>\<open>repo_find_best_pkg_cb\<close> replaces the best match whenever
  \<^verbatim>\<open>xbps_cmpver\<close> is not 0, also when it is -1. With a third repository that holds 1.0
  again the scan ends with that repository as \<^verbatim>\<open>repo_bestmatch\<close>, and the descriptor
  comes back annotated with the first repository: the exact lookup that follows starts
  with \<^verbatim>\<open>repo_bestmatch = NULL\<close> and is not restricted to any repository.
\<close>

theorem C1_best_returns_lower_version:
  "plist_cmpver ''foo-1.0'' ''foo-2.0'' = - 1 \<and>
   xbps_repository_pool_find_pkg plist_api
      [mk_repo ''repoA'' [mk_pkg ''foo'' ''2.0''], mk_repo ''repoB'' [mk_pkg ''foo'' ''1.0'']]
      ''foo'' False True 0
    = Some (Some ((mk_pkg ''foo'' ''1.0'')\<lparr>repository := Some ''repoB''\<rparr>), ENOENT) \<and>
   rpf_repo_bestmatch (fst (foreach_errno (xbps_repository_pool_foreach
      (repo_find_best_pkg_cb plist_api)
      [mk_repo ''repoA'' [mk_pkg ''foo'' ''1.0''], mk_repo ''repoB'' [mk_pkg ''foo'' ''2.0''],
       mk_repo ''repoC'' [mk_pkg ''foo'' ''1.0'']]
      (rpf_init ''foo'' False False, 0)))) = Some ''repoC'' \<and>
   xbps_repository_pool_find_pkg plist_api
      [mk_repo ''repoA'' [mk_pkg ''foo'' ''1.0''], mk_repo ''repoB'' [mk_pkg ''foo'' ''2.0''],
       mk_repo ''repoC'' [mk_pkg ''foo'' ''1.0'']]
      ''foo'' False True 0
    = Some (Some ((mk_pkg ''foo'' ''1.0'')\<lparr>repository := Some ''repoA''\<rparr>), 0)"
  by code_simp

text \<open>
  C5: without \<^verbatim>\<open>best\<close>, \<^verbatim>\<open>xbps_repository_pool_find_pkg\<close> returns the match of the first
  repository, in the order of the pool, that has one, whatever the later repositories
  hold and whatever their versions are (the comparator is not consulted); in each
  repository the packages are searched first and the virtual packages only when that
  search found nothing: when the packages hold a match, the callback returns it with the
  \<^verbatim>\<open>errno\<close> that this one lookup left. The hypothesis is that the allocation of the search
  record succeeds.
\<close>

theorem C5_find_first_repository_wins:
  assumes "malloc_rpf api pkg"
  shows "(\<exists>errno. xbps_repository_pool_find_pkg api pool pkg bypat False errno0
                    = Some (spec_find api pool pkg bypat, errno)) \<and>
         (\<forall>pre rpi post d.
            pool = pre @ rpi # post \<and> (\<forall>r\<in>set pre. spec_repo_lookup api r pkg bypat = None) \<and>
            spec_repo_lookup api rpi pkg bypat = Some d \<longrightarrow>
            (\<exists>errno. xbps_repository_pool_find_pkg api pool pkg bypat False errno0
                    = Some (Some (d\<lparr>repository := Some (rpi_uri rpi)\<rparr>), errno))) \<and>
         (\<forall>rpi rpf errno dn d e.
            \<not> rpf_exact rpf \<and>
            (if rpf_bypattern rpf
             then xbps_find_pkg_in_dict_by_pattern api (rpi_repod rpi) ''packages''
                    (rpf_pattern rpf)
             else xbps_find_pkg_in_dict_by_name api (rpi_repod rpi) ''packages''
                    (rpf_pattern rpf)) = (Some d, e) \<longrightarrow>
            repo_find_pkg_cb api rpi (rpf, errno, dn) =
              (0, rpf\<lparr>rpf_pkgd := Some (d\<lparr>repository := Some (rpi_uri rpi)\<rparr>)\<rparr>,
               assign_errno e errno, True))"
proof -
  have cb: "repo_find_pkg_cb api rpi (rpf, errno, dn) =
              (0, rpf\<lparr>rpf_pkgd := Some (d\<lparr>repository := Some (rpi_uri rpi)\<rparr>)\<rparr>,
               assign_errno e errno, True)"
    if "\<not> rpf_exact rpf"
       "(if rpf_bypattern rpf
         then xbps_find_pkg_in_dict_by_pattern api (rpi_repod rpi) ''packages'' (rpf_pattern rpf)
         else xbps_find_pkg_in_dict_by_name api (rpi_repod rpi) ''packages'' (rpf_pattern rpf))
        = (Some d, e)"
    for rpi rpf errno dn d e
    using that by (auto simp: repo_find_pkg_cb_def store_pkgd_def split: if_splits)
  obtain rpf' errno' where scan:
    "foreach_from (repo_find_pkg_cb api) pool (rpf_init pkg bypat False, errno0, False)
        = (0, rpf', errno')"
    "rpf_pkgd rpf' = spec_find api pool pkg bypat"
    using foreach_find_pkg [of "rpf_init pkg bypat False" api pool errno0]
    by (auto simp: rpf_init_def)
  have res: "xbps_repository_pool_find_pkg api pool pkg bypat False errno0
               = Some (spec_find api pool pkg bypat, errno')"
    using assms scan
    by (simp add: xbps_repository_pool_find_pkg_def repo_find_pkg.simps
        xbps_repository_pool_foreach_def foreach_errno_def)
  have "spec_find api (pre @ rpi # post) pkg bypat
          = Some (d\<lparr>repository := Some (rpi_uri rpi)\<rparr>)"
    if "\<forall>r\<in>set pre. spec_repo_lookup api r pkg bypat = None" "spec_repo_lookup api rpi pkg bypat = Some d"
    for pre rpi post d
    using that by (simp add: spec_find_append)
  with res cb show ?thesis by auto
qed

theorem C5_witness:
  "malloc_rpf plist_api ''foo'' \<and>
   (\<exists>errno. xbps_repository_pool_find_pkg plist_api
       [mk_repo ''repoA'' [mk_pkg ''foo'' ''1.0''], mk_repo ''repoB'' [mk_pkg ''foo'' ''2.0'']]
       ''foo'' False False 0
     = Some (Some ((mk_pkg ''foo'' ''1.0'')\<lparr>repository := Some ''repoA''\<rparr>), errno))"
proof -
  have m: "malloc_rpf plist_api ''foo''" by (simp add: plist_api_def)
  have r: "spec_repo_lookup plist_api (mk_repo ''repoA'' [mk_pkg ''foo'' ''1.0'']) ''foo'' False
             = Some (mk_pkg ''foo'' ''1.0'')"
    by (simp add: spec_repo_lookup_def plist_api_def mk_repo_def mk_pkg_def plist_lookup_def)
  from C5_find_first_repository_wins [OF m,
      of "[mk_repo ''repoA'' [mk_pkg ''foo'' ''1.0''], mk_repo ''repoB'' [mk_pkg ''foo'' ''2.0'']]"
         False 0]
  have "\<forall>pre rpi post d.
          [mk_repo ''repoA'' [mk_pkg ''foo'' ''1.0''], mk_repo ''repoB'' [mk_pkg ''foo'' ''2.0'']]
            = pre @ rpi # post \<and>
          (\<forall>r\<in>set pre. spec_repo_lookup plist_api r ''foo'' False = None) \<and>
          spec_repo_lookup plist_api rpi ''foo'' False = Some d \<longrightarrow>
          (\<exists>errno. xbps_repository_pool_find_pkg plist_api
               [mk_repo ''repoA'' [mk_pkg ''foo'' ''1.0''],
                mk_repo ''repoB'' [mk_pkg ''foo'' ''2.0'']] ''foo'' False False 0
             = Some (Some (d\<lparr>repository := Some (rpi_uri rpi)\<rparr>), errno))"
    by blast
  from this [rule_format, of "[]" "mk_repo ''repoA'' [mk_pkg ''foo'' ''1.0'']"
      "[mk_repo ''repoB'' [mk_pkg ''foo'' ''2.0'']]" "mk_pkg ''foo'' ''1.0''"] r
  have "\<exists>errno. xbps_repository_pool_find_pkg plist_api
               [mk_repo ''repoA'' [mk_pkg ''foo'' ''1.0''],
                mk_repo ''repoB'' [mk_pkg ''foo'' ''2.0'']] ''foo'' False False 0
             = Some (Some ((mk_pkg ''foo'' ''1.0'')
                  \<lparr>repository := Some (rpi_uri (mk_repo ''repoA'' [mk_pkg ''foo'' ''1.0'']))\<rparr>),
                 errno)"
    by simp
  then show ?thesis using m by (simp add: mk_repo_def)
qed

text \<open>
  C6 (the code does not do what the claim says). The index of the first repository
  cannot be read: every lookup in it fails with \<^verbatim>\<open>EIO\<close>. The by-name lookup does not stop
  there: it goes on to the second repository and returns its package, and so does the
  exact lookup. Only \<^verbatim>\<open>errno\<close> still holds \<^verbatim>\<open>EIO\<close>.
\<close>

theorem C6_lookup_error_does_not_abort_scan:
  "xbps_find_pkg_in_dict_by_name plist_api (rpi_repod (mk_broken_repo ''repoA'' EIO))
      ''packages'' ''foo'' = (None, Some EIO) \<and>
   xbps_repository_pool_find_pkg plist_api
      [mk_broken_repo ''repoA'' EIO, mk_repo ''repoB'' [mk_pkg ''foo'' ''1.0'']]
      ''foo'' False False 0
    = Some (Some ((mk_pkg ''foo'' ''1.0'')\<lparr>repository := Some ''repoB''\<rparr>), EIO) \<and>
   xbps_repository_pool_find_pkg_exact plist_api
      [mk_broken_repo ''repoA'' EIO, mk_repo ''repoB'' [mk_pkg ''foo'' ''1.0'']]
      ''foo-1.0'' 0
    = Some (Some ((mk_pkg ''foo'' ''1.0'')\<lparr>repository := Some ''repoB''\<rparr>), EIO)"
  by code_simp

section \<open>Unpacking: what the calls leave unchanged\<close>

text \<open>
  Nothing that \<^verbatim>\<open>unpack_archive\<close> calls writes a package state, and every call only
  adds to the trace.
\<close>

lemma log_event_proj [simp]:
  "w_disk (log_event ev w) = w_disk w"
  "w_dirs (log_event ev w) = w_dirs w"
  "w_errno (log_event ev w) = w_errno w"
  "w_states (log_event ev w) = w_states w"
  "w_trace (log_event ev w) = w_trace w @ [ev]"
  by (simp_all add: log_event_def)

lemma set_cb_state_proj [simp]:
  "w_disk (xbps_set_cb_state s e w) = w_disk w"
  "w_dirs (xbps_set_cb_state s e w) = w_dirs w"
  "w_errno (xbps_set_cb_state s e w) = w_errno w"
  "w_states (xbps_set_cb_state s e w) = w_states w"
  "w_trace (xbps_set_cb_state s e w) = w_trace w @ [Set_cb_state s e]"
  by (simp_all add: xbps_set_cb_state_def)

lemma data_skip_proj [simp]:
  "w_disk (archive_read_data_skip en w) = w_disk w"
  "w_dirs (archive_read_data_skip en w) = w_dirs w"
  "w_errno (archive_read_data_skip en w) = w_errno w"
  "w_states (archive_read_data_skip en w) = w_states w"
  "w_trace (archive_read_data_skip en w) = w_trace w @ [Archive_read_data_skip (pathname en)]"
  by (simp_all add: archive_read_data_skip_def)

lemma prim_states [simp]:
  "w_states (snd (c_access c p w)) = w_states w"
  "w_states (snd (xbps_mkpath c p w)) = w_states w"
  "w_states (snd (c_chdir c p w)) = w_states w"
  "w_states (snd (c_unlink c p w)) = w_states w"
  "w_states (snd (c_rename c p q w)) = w_states w"
  "w_states (snd (xbps_file_exec c p args w)) = w_states w"
  "w_states (snd (snd (archive_read_extract c en fl st w))) = w_states w"
  by (simp_all add: c_access_def xbps_mkpath_def c_chdir_def c_unlink_def c_rename_def
      xbps_file_exec_def archive_read_extract_def split: option.splits)

lemma prim_trace [simp]:
  "w_trace (snd (c_access c p w)) = w_trace w @ [Access p]"
  "w_trace (snd (xbps_mkpath c p w)) = w_trace w @ [Mkpath p]"
  "w_trace (snd (c_chdir c p w)) = w_trace w @ [Chdir p]"
  "w_trace (snd (c_unlink c p w)) = w_trace w @ [Unlink p]"
  "w_trace (snd (c_rename c p q w)) = w_trace w @ [Rename p q]"
  "w_trace (snd (xbps_file_exec c p args w)) = w_trace w @ [File_exec p args]"
  "w_trace (snd (snd (archive_read_extract c en fl st w))) = w_trace w @ [Archive_read_extract en fl]"
  by (simp_all add: c_access_def xbps_mkpath_def c_chdir_def c_unlink_def c_rename_def
      xbps_file_exec_def archive_read_extract_def split: option.splits)

lemma extract_metafile_states [simp]:
  "w_states (snd (snd (extract_metafile c en file pv ex fl st w))) = w_states w"
  by (simp add: extract_metafile_def case_prod_beta split: option.splits)

lemma extract_metafile_trace [simp]:
  "prefix t (w_trace w) \<Longrightarrow> prefix t (w_trace (snd (snd (extract_metafile c en file pv ex fl st w))))"
  by (simp add: extract_metafile_def case_prod_beta split: option.splits)

lemma remove_metafile_states [simp]:
  "w_states (snd (remove_metafile c file pv w)) = w_states w"
  by (simp add: remove_metafile_def case_prod_beta split: option.splits)

lemma remove_metafile_trace [simp]:
  "prefix t (w_trace w) \<Longrightarrow> prefix t (w_trace (snd (remove_metafile c file pv w)))"
  by (simp add: remove_metafile_def case_prod_beta split: option.splits)

lemma unpack_begin_states [simp]:
  "w_states (ctl_world (unpack_begin c xhp pkg w)) = w_states w"
  by (simp add: unpack_begin_def case_prod_beta)

lemma unpack_begin_trace [simp]:
  "prefix t (w_trace w) \<Longrightarrow> prefix t (w_trace (ctl_world (unpack_begin c xhp pkg w)))"
  by (simp add: unpack_begin_def case_prod_beta)

lemma metadata_done_states [simp]:
  "w_states (ctl_world (metadata_done st w)) = w_states w"
  by (simp add: metadata_done_def split: option.splits)

lemma metadata_done_trace [simp]:
  "prefix t (w_trace w) \<Longrightarrow> prefix t (w_trace (ctl_world (metadata_done st w)))"
  by (simp add: metadata_done_def split: option.splits)

lemma unpack_install_script_states [simp]:
  "w_states (ctl_world (unpack_install_script c xhp pkg upd en fl st w)) = w_states w"
  by (simp add: unpack_install_script_def case_prod_beta split: option.splits)

lemma unpack_install_script_trace [simp]:
  "prefix t (w_trace w) \<Longrightarrow>
   prefix t (w_trace (ctl_world (unpack_install_script c xhp pkg upd en fl st w)))"
  by (simp add: unpack_install_script_def case_prod_beta split: option.splits)

lemma unpack_remove_script_states [simp]:
  "w_states (ctl_world (unpack_remove_script c pkg en fl st w)) = w_states w"
  by (simp add: unpack_remove_script_def case_prod_beta)

lemma unpack_remove_script_trace [simp]:
  "prefix t (w_trace w) \<Longrightarrow>
   prefix t (w_trace (ctl_world (unpack_remove_script c pkg en fl st w)))"
  by (simp add: unpack_remove_script_def case_prod_beta)

lemma unpack_files_plist_states [simp]:
  "w_states (ctl_world (unpack_files_plist c en st w)) = w_states w"
  by (simp add: unpack_files_plist_def split: sum.splits)

lemma unpack_files_plist_trace [simp]:
  "prefix t (w_trace w) \<Longrightarrow> prefix t (w_trace (ctl_world (unpack_files_plist c en st w)))"
  by (simp add: unpack_files_plist_def split: sum.splits)

lemma unpack_props_plist_states [simp]:
  "w_states (ctl_world (unpack_props_plist c pkg en fl st w)) = w_states w"
  by (simp add: unpack_props_plist_def case_prod_beta split: sum.splits)

lemma unpack_props_plist_trace [simp]:
  "prefix t (w_trace w) \<Longrightarrow>
   prefix t (w_trace (ctl_world (unpack_props_plist c pkg en fl st w)))"
  by (simp add: unpack_props_plist_def case_prod_beta split: sum.splits)

lemma unpack_skip_early_states [simp]:
  "w_states (ctl_world (unpack_skip_early en st w)) = w_states w"
  by (simp add: unpack_skip_early_def)

lemma unpack_skip_early_trace [simp]:
  "prefix t (w_trace w) \<Longrightarrow> prefix t (w_trace (ctl_world (unpack_skip_early en st w)))"
  by (simp add: unpack_skip_early_def)

lemma unpack_extract_states [simp]:
  "w_states (ctl_world (unpack_extract c en fl st w)) = w_states w"
  by (simp add: unpack_extract_def case_prod_beta split: option.splits)

lemma unpack_extract_trace [simp]:
  "prefix t (w_trace w) \<Longrightarrow> prefix t (w_trace (ctl_world (unpack_extract c en fl st w)))"
  by (simp add: unpack_extract_def case_prod_beta split: option.splits)

lemma unpack_conf_file_states [simp]:
  "w_states (ctl_world (unpack_conf_file c pkg upd fd cf fe en fl st w)) = w_states w"
  by (simp add: unpack_conf_file_def case_prod_beta split: option.splits)

lemma unpack_conf_file_trace [simp]:
  "prefix t (w_trace w) \<Longrightarrow>
   prefix t (w_trace (ctl_world (unpack_conf_file c pkg upd fd cf fe en fl st w)))"
  by (simp add: unpack_conf_file_def case_prod_beta split: option.splits)

lemma unpack_file_states [simp]:
  "w_states (ctl_world (unpack_file c pkg upd pd fd en fl st w)) = w_states w"
  by (simp add: unpack_file_def case_prod_beta)

lemma unpack_file_trace [simp]:
  "prefix t (w_trace w) \<Longrightarrow>
   prefix t (w_trace (ctl_world (unpack_file c pkg upd pd fd en fl st w)))"
  by (simp add: unpack_file_def case_prod_beta)

lemma unpack_entry_states [simp]:
  "w_states (ctl_world (unpack_entry c xhp pkg upd en st w)) = w_states w"
  by (simp add: unpack_entry_def split: option.splits)

lemma unpack_entry_trace [simp]:
  "prefix t (w_trace w) \<Longrightarrow>
   prefix t (w_trace (ctl_world (unpack_entry c xhp pkg upd en st w)))"
  by (simp add: unpack_entry_def split: option.splits)


lemma unpack_loop_states [simp]:
  "w_states (ctl_world (unpack_loop c xhp pkg upd ar st w)) = w_states w"
proof (induction ar arbitrary: st w)
  case Nil
  show ?case by simp
next
  case (Cons h rest)
  show ?case
  proof (cases h)
    case (Header_error e)
    then show ?thesis by simp
  next
    case (Header en)
    show ?thesis
    proof (cases "unpack_entry c xhp pkg upd en (st\<lparr>ar_errno := 0\<rparr>) w")
      case (Next st1 w1)
      have "w_states (ctl_world (unpack_entry c xhp pkg upd en (st\<lparr>ar_errno := 0\<rparr>) w))
              = w_states w"
        by (rule unpack_entry_states)
      with Next have "w_states w1 = w_states w" by simp
      with Next Header Cons.IH show ?thesis by simp
    next
      case (Out rv w1)
      have "w_states (ctl_world (unpack_entry c xhp pkg upd en (st\<lparr>ar_errno := 0\<rparr>) w))
              = w_states w"
        by (rule unpack_entry_states)
      with Out Header show ?thesis by simp
    qed
  qed
qed

lemma unpack_loop_trace [simp]:
  "prefix t (w_trace w) \<Longrightarrow>
   prefix t (w_trace (ctl_world (unpack_loop c xhp pkg upd ar st w)))"
proof (induction ar arbitrary: st w)
  case Nil
  then show ?case by simp
next
  case (Cons h rest)
  show ?case
  proof (cases h)
    case (Header_error e)
    with Cons.prems show ?thesis by simp
  next
    case (Header en)
    have step: "prefix t (w_trace (ctl_world
                  (unpack_entry c xhp pkg upd en (st\<lparr>ar_errno := 0\<rparr>) w)))"
      using Cons.prems by (rule unpack_entry_trace)
    show ?thesis
    proof (cases "unpack_entry c xhp pkg upd en (st\<lparr>ar_errno := 0\<rparr>) w")
      case (Next st1 w1)
      with step have "prefix t (w_trace w1)" by simp
      then have "prefix t (w_trace (ctl_world (unpack_loop c xhp pkg upd rest st1 w1)))"
        by (rule Cons.IH)
      with Next Header show ?thesis by simp
    next
      case (Out rv w1)
      with step Header show ?thesis by simp
    qed
  qed
qed

lemma unpack_metadata_states [simp]:
  "w_states (snd (unpack_metadata c pkg pf rv st w)) = w_states w"
  by (simp add: unpack_metadata_def case_prod_beta split: option.splits sum.splits)

lemma unpack_metadata_trace [simp]:
  "prefix t (w_trace w) \<Longrightarrow> prefix t (w_trace (snd (unpack_metadata c pkg pf rv st w)))"
  by (simp add: unpack_metadata_def case_prod_beta split: option.splits sum.splits)

lemma unpack_finish_states [simp]:
  "w_states (snd (unpack_finish c pkg upd st w)) = w_states w"
  by (simp add: unpack_finish_def case_prod_beta split: option.splits sum.splits)

lemma unpack_finish_trace [simp]:
  "prefix t (w_trace w) \<Longrightarrow> prefix t (w_trace (snd (unpack_finish c pkg upd st w)))"
  by (simp add: unpack_finish_def case_prod_beta split: option.splits sum.splits)

lemma ctl_world_next: "r = Next st w \<Longrightarrow> ctl_world r = w"
  by simp

lemma unpack_archive_states:
  "w_states (snd (unpack_archive c xhp pkg ar w)) = w_states w"
proof (cases "unpack_begin c xhp pkg w")
  case (Out rv w1)
  have "w_states (ctl_world (unpack_begin c xhp pkg w)) = w_states w" by simp
  with Out show ?thesis by (simp add: unpack_archive_def)
next
  case b: (Next st1 w1)
  have "w_states (ctl_world (unpack_begin c xhp pkg w)) = w_states w" by simp
  with b have w1: "w_states w1 = w_states w" by simp
  show ?thesis
  proof (cases "unpack_loop c xhp pkg (transaction pkg = ''update'') ar st1 w1")
    case (Out rv w2)
    have "w_states (ctl_world (unpack_loop c xhp pkg (transaction pkg = ''update'') ar st1 w1))
            = w_states w1" by simp
    with Out b w1 show ?thesis by (simp add: unpack_archive_def)
  next
    case (Next st2 w2)
    have "w_states (ctl_world (unpack_loop c xhp pkg (transaction pkg = ''update'') ar st1 w1))
            = w_states w1" by simp
    with Next have "w_states w2 = w_states w1" by simp
    with Next b w1 show ?thesis by (simp add: unpack_archive_def)
  qed
qed

lemma unpack_archive_trace:
  assumes "prefix t (w_trace w)"
  shows "prefix t (w_trace (snd (unpack_archive c xhp pkg ar w)))"
proof -
  have b: "prefix t (w_trace (ctl_world (unpack_begin c xhp pkg w)))"
    using assms by simp
  show ?thesis
  proof (cases "unpack_begin c xhp pkg w")
    case (Out rv w1)
    with b show ?thesis by (simp add: unpack_archive_def)
  next
    case bn: (Next st1 w1)
    with b have "prefix t (w_trace w1)" by simp
    then have l: "prefix t (w_trace (ctl_world
                    (unpack_loop c xhp pkg (transaction pkg = ''update'') ar st1 w1)))"
      by simp
    show ?thesis
    proof (cases "unpack_loop c xhp pkg (transaction pkg = ''update'') ar st1 w1")
      case (Out rv w2)
      with l bn show ?thesis by (simp add: unpack_archive_def)
    next
      case (Next st2 w2)
      with l have "prefix t (w_trace w2)" by simp
      with Next bn show ?thesis by (simp add: unpack_archive_def)
    qed
  qed
qed

lemma unpack_loop_append:
  "unpack_loop c xhp pkg upd (map Header es @ rest) st w =
     (case unpack_entries c xhp pkg upd es st w of
        Next st1 w1 \<Rightarrow> unpack_loop c xhp pkg upd rest st1 w1
      | Out rv w1 \<Rightarrow> Out rv w1)"
  by (induction es arbitrary: st w) (simp_all split: ctl.splits)

section \<open>Unpacking: the claims\<close>

text \<open>
  C2 (the code does not do what the claim says). The package holds \<^verbatim>\<open>./a\<close> and \<^verbatim>\<open>./b\<close>, and
  \<^verbatim>\<open>./a\<close> cannot be written: \<^verbatim>\<open>archive_read_extract\<close> fails with \<^verbatim>\<open>EACCES\<close>. The loop reports
  the failure and goes on: \<^verbatim>\<open>./b\<close> is extracted after it. The next read of a header
  clears the error number of the archive, so the test after the loop finds 0, the call
  returns 0 and the package is marked \<^verbatim>\<open>unpacked\<close> with \<^verbatim>\<open>./a\<close> missing.
\<close>

theorem C2_failed_extraction_does_not_abort:
  "archive_extract_errno failing_extract_env (file_entry ''./a'' ''A'') FEXTRACT_FLAGS
     = Some EACCES \<and>
   fst (xbps_unpack_binary_pkg failing_extract_env sample_handle (sample_pkg ''install'')
          (sample_world [])) = 0 \<and>
   w_disk (snd (xbps_unpack_binary_pkg failing_extract_env sample_handle
          (sample_pkg ''install'') (sample_world []))) ''./a'' = None \<and>
   w_disk (snd (xbps_unpack_binary_pkg failing_extract_env sample_handle
          (sample_pkg ''install'') (sample_world []))) ''./b'' = Some ''B'' \<and>
   w_states (snd (xbps_unpack_binary_pkg failing_extract_env sample_handle
          (sample_pkg ''install'') (sample_world []))) ''foo'' = Some XBPS_PKG_STATE_UNPACKED \<and>
   w_trace (snd (xbps_unpack_binary_pkg failing_extract_env sample_handle
          (sample_pkg ''install'') (sample_world []))) =
     [Set_cb_state XBPS_STATE_UNPACK 0,
      Set_pkg_state_installed ''foo'' XBPS_PKG_STATE_HALF_UNPACKED,
      Access ''/'', Chdir ''/'', Access ''var/db/xbps/metadata/foo'',
      Mkpath ''var/db/xbps/metadata/foo'',
      Archive_read_extract
        ((file_entry ''./props.plist'' ''P'')
           \<lparr>pathname := ''var/db/xbps/metadata/foo/props.plist''\<rparr>) FEXTRACT_FLAGS,
      Access ''./a'',
      Archive_read_extract (file_entry ''./a'' ''A'') FEXTRACT_FLAGS,
      Set_cb_state XBPS_STATE_UNPACK_FAIL EACCES,
      Access ''./b'',
      Archive_read_extract (file_entry ''./b'' ''B'') FEXTRACT_FLAGS,
      Mkpath ''var/db/xbps/metadata/foo'',
      Set_pkg_state_installed ''foo'' XBPS_PKG_STATE_UNPACKED]"
  by code_simp




lemma unpack_entries_states [simp]:
  "w_states (ctl_world (unpack_entries c xhp pkg upd es st w)) = w_states w"
proof (induction es arbitrary: st w)
  case Nil
  show ?case by simp
next
  case (Cons en rest)
  have e: "w_states (ctl_world (unpack_entry c xhp pkg upd en (st\<lparr>ar_errno := 0\<rparr>) w))
             = w_states w"
    by (rule unpack_entry_states)
  show ?case
  proof (cases "unpack_entry c xhp pkg upd en (st\<lparr>ar_errno := 0\<rparr>) w")
    case (Next st1 w1)
    with e have "w_states w1 = w_states w" by simp
    with Next Cons.IH show ?thesis by simp
  next
    case (Out rv w1)
    with e show ?thesis by simp
  qed
qed

text \<open>
  C4: the run reaches the entry \<^verbatim>\<open>./INSTALL\<close> (the archive opened, the state
  \<^verbatim>\<open>half-unpacked\<close> was written, lines 211 to 252 and the entries before it went through),
  the script is extracted and its \<^verbatim>\<open>pre\<close> action returns \<open>rv\<close>, not 0. Then the call
  returns \<open>rv\<close>, the world it leaves is the one right after the script plus the two
  failure notifications, whatever entries follow in the stream, and the persisted state
  of the package is \<^verbatim>\<open>half-unpacked\<close>.
\<close>

theorem C4_failing_pre_install_script:
  assumes path: "xbps_path_from_repository_uri c pkg (repository pkg) = Inr bpkg"
      and new: "archive_read_new c"
      and opn: "archive_read_open_filename c bpkg = Inr (map Header pre @ Header inst # post)"
      and half: "set_pkg_state_errno c (pkgname pkg) XBPS_PKG_STATE_HALF_UNPACKED = 0"
      and beg: "unpack_begin c xhp pkg
                    (snd (xbps_set_pkg_state_installed c (pkgname pkg) (version pkg) (pkgver pkg)
                            XBPS_PKG_STATE_HALF_UNPACKED
                            (xbps_set_cb_state XBPS_STATE_UNPACK 0 w0))) = Next st1 w1"
      and pre: "unpack_entries c xhp pkg (transaction pkg = ''update'') pre st1 w1 = Next st2 w2"
      and inst: "pathname inst = ''./INSTALL''" "st_mode inst \<noteq> S_IFDIR"
      and buf: "xasprintf_ok c (metadata_path c (pkgname pkg) ''INSTALL'')"
      and ext: "extract_metafile c inst ''INSTALL'' (pkgver pkg) True (set_extract_flags c)
                  (xucd_prepare inst (st2\<lparr>ar_errno := 0\<rparr>)) w2 = (0, st3, w3)"
      and exec: "fst (file_exec_result c (metadata_path c (pkgname pkg) ''INSTALL'')
                   [''pre'', pkgname pkg, version pkg,
                    if transaction pkg = ''update'' then ''yes'' else ''no'', conffile xhp]
                   (w_disk w3)) = rv"
      and rv: "rv \<noteq> 0"
  shows "xbps_unpack_binary_pkg c xhp pkg w0 =
           (rv, xbps_set_cb_state XBPS_STATE_UNPACK_FAIL rv
                  (xbps_set_cb_state XBPS_STATE_UNPACK_FAIL rv
                     (snd (xbps_file_exec c (metadata_path c (pkgname pkg) ''INSTALL'')
                             [''pre'', pkgname pkg, version pkg,
                              if transaction pkg = ''update'' then ''yes'' else ''no'',
                              conffile xhp] w3)))) \<and>
         w_states (snd (xbps_unpack_binary_pkg c xhp pkg w0)) (pkgname pkg)
           = Some XBPS_PKG_STATE_HALF_UNPACKED \<and>
         w_trace (snd (xbps_unpack_binary_pkg c xhp pkg w0)) =
           w_trace w3 @
           [File_exec (metadata_path c (pkgname pkg) ''INSTALL'')
              [''pre'', pkgname pkg, version pkg,
               if transaction pkg = ''update'' then ''yes'' else ''no'', conffile xhp],
            Set_cb_state XBPS_STATE_UNPACK_FAIL rv, Set_cb_state XBPS_STATE_UNPACK_FAIL rv]"
proof -
  let ?upd = "transaction pkg = ''update''"
  let ?args = "[''pre'', pkgname pkg, version pkg, if ?upd then ''yes'' else ''no'',
                conffile xhp]"
  let ?W = "snd (xbps_set_pkg_state_installed c (pkgname pkg) (version pkg) (pkgver pkg)
                   XBPS_PKG_STATE_HALF_UNPACKED (xbps_set_cb_state XBPS_STATE_UNPACK 0 w0))"
  let ?w4 = "snd (xbps_file_exec c (metadata_path c (pkgname pkg) ''INSTALL'') ?args w3)"
  have script: "unpack_install_script c xhp pkg ?upd inst (set_extract_flags c)
                  (xucd_prepare inst (st2\<lparr>ar_errno := 0\<rparr>)) w2
                = Out rv (xbps_set_cb_state XBPS_STATE_UNPACK_FAIL rv ?w4)"
    using buf ext exec rv
    by (simp add: unpack_install_script_def xbps_xasprintf_def xbps_file_exec_def)
  have entry: "unpack_entry c xhp pkg ?upd inst (st2\<lparr>ar_errno := 0\<rparr>) w2
                = Out rv (xbps_set_cb_state XBPS_STATE_UNPACK_FAIL rv ?w4)"
    using inst script by (simp add: unpack_entry_def)
  have loop: "unpack_loop c xhp pkg ?upd (map Header pre @ Header inst # post) st1 w1
                = Out rv (xbps_set_cb_state XBPS_STATE_UNPACK_FAIL rv ?w4)"
    using pre entry by (simp add: unpack_loop_append)
  have archive: "unpack_archive c xhp pkg (map Header pre @ Header inst # post) ?W
                = (rv, xbps_set_cb_state XBPS_STATE_UNPACK_FAIL rv ?w4)"
    using beg loop by (simp add: unpack_archive_def)
  have res: "xbps_unpack_binary_pkg c xhp pkg w0 =
           (rv, xbps_set_cb_state XBPS_STATE_UNPACK_FAIL rv
                  (xbps_set_cb_state XBPS_STATE_UNPACK_FAIL rv ?w4))"
    using path new opn half archive rv
    by (simp add: xbps_unpack_binary_pkg_def xbps_set_pkg_state_installed_def)
  have "w_states (snd (unpack_archive c xhp pkg (map Header pre @ Header inst # post) ?W))
          = w_states ?W"
    by (rule unpack_archive_states)
  with archive have "w_states ?w4 = w_states ?W" by simp
  then have st: "w_states ?w4 (pkgname pkg) = Some XBPS_PKG_STATE_HALF_UNPACKED"
    using half by (simp add: xbps_set_pkg_state_installed_def)
  show ?thesis using res st by simp
qed

text \<open>C4, witness: the script is the first entry and exits with 1.\<close>

theorem C4_witness:
  "fst (xbps_unpack_binary_pkg failing_script_env sample_handle (sample_pkg ''install'')
          (sample_world [])) = 1 \<and>
   w_states (snd (xbps_unpack_binary_pkg failing_script_env sample_handle
          (sample_pkg ''install'') (sample_world []))) ''foo''
     = Some XBPS_PKG_STATE_HALF_UNPACKED \<and>
   w_disk (snd (xbps_unpack_binary_pkg failing_script_env sample_handle
          (sample_pkg ''install'') (sample_world []))) ''./a'' = None"
proof -
  let ?c = failing_script_env
  let ?pkg = "sample_pkg ''install''"
  let ?inst = "file_entry ''./INSTALL'' ''exit 1''"
  let ?post = "[Header (file_entry ''./files.plist'' ''F''),
                Header (file_entry ''./props.plist'' ''P''), Header (file_entry ''./a'' ''A'')]"
  let ?W = "snd (xbps_set_pkg_state_installed ?c (pkgname ?pkg) (version ?pkg) (pkgver ?pkg)
                   XBPS_PKG_STATE_HALF_UNPACKED
                   (xbps_set_cb_state XBPS_STATE_UNPACK 0 (sample_world [])))"
  let ?w1 = "snd (c_chdir ?c ''/'' (snd (c_access ?c ''/'' ?W)))"
  let ?st1 = "unpack_state_init sample_handle"
  let ?X = "extract_metafile ?c ?inst ''INSTALL'' (pkgver ?pkg) True (set_extract_flags ?c)
              (xucd_prepare ?inst (?st1\<lparr>ar_errno := 0\<rparr>)) ?w1"
  have path: "xbps_path_from_repository_uri ?c ?pkg (repository ?pkg) = Inr ''repo/foo-1.0.xbps''"
    by (simp add: failing_script_env_def sample_env_def sample_pkg_def mk_pkg_def)
  have new: "archive_read_new ?c"
    by (simp add: failing_script_env_def sample_env_def)
  have opn: "archive_read_open_filename ?c ''repo/foo-1.0.xbps''
               = Inr (map Header [] @ Header ?inst # ?post)"
    by (simp add: failing_script_env_def sample_env_def script_archive_def)
  have half: "set_pkg_state_errno ?c (pkgname ?pkg) XBPS_PKG_STATE_HALF_UNPACKED = 0"
    by (simp add: failing_script_env_def sample_env_def)
  have beg: "unpack_begin ?c sample_handle ?pkg ?W = Next ?st1 ?w1"
    by (simp add: unpack_begin_def failing_script_env_def sample_env_def sample_handle_def
        sample_pkg_def mk_pkg_def sample_world_def c_access_def c_chdir_def
        xbps_set_pkg_state_installed_def)
  have pre: "unpack_entries ?c sample_handle ?pkg (transaction ?pkg = ''update'') [] ?st1 ?w1
               = Next ?st1 ?w1"
    by simp
  have inst: "pathname ?inst = ''./INSTALL''" "st_mode ?inst \<noteq> S_IFDIR"
    by (simp_all add: file_entry_def)
  have buf: "xasprintf_ok ?c (metadata_path ?c (pkgname ?pkg) ''INSTALL'')"
    by (simp add: failing_script_env_def sample_env_def)
  have "fst ?X = 0"
    by (simp add: extract_metafile_def failing_script_env_def sample_env_def
        xbps_xasprintf_def c_access_def xbps_mkpath_def archive_read_extract_def
        case_prod_beta)
  then have ext: "?X = (0, fst (snd ?X), snd (snd ?X))"
    by (simp add: prod_eq_iff)
  have exec: "fst (file_exec_result ?c (metadata_path ?c (pkgname ?pkg) ''INSTALL'')
                   [''pre'', pkgname ?pkg, version ?pkg,
                    if transaction ?pkg = ''update'' then ''yes'' else ''no'',
                    conffile sample_handle]
                   (w_disk (snd (snd ?X)))) = 1"
    by (simp add: failing_script_env_def sample_env_def)
  have rv: "(1::int) \<noteq> 0" by simp
  note main = C4_failing_pre_install_script [OF path new opn half beg pre inst buf ext exec rv]
  have name: "pkgname ?pkg = ''foo''"
    by (simp add: sample_pkg_def mk_pkg_def)
  have r1: "fst (xbps_unpack_binary_pkg ?c sample_handle ?pkg (sample_world [])) = 1"
    using main [THEN conjunct1] by simp
  have r2: "w_states (snd (xbps_unpack_binary_pkg ?c sample_handle ?pkg (sample_world [])))
              ''foo'' = Some XBPS_PKG_STATE_HALF_UNPACKED"
    using main [THEN conjunct2, THEN conjunct1] name by simp
  have keep: "w_disk (snd (xbps_file_exec ?c f args w)) = w_disk w" for f args w
    by (simp add: xbps_file_exec_def failing_script_env_def sample_env_def)
  have d: "w_disk (snd (snd ?X)) ''./a'' = None"
    by (simp add: extract_metafile_def failing_script_env_def sample_env_def
        xbps_xasprintf_def c_access_def xbps_mkpath_def archive_read_extract_def
        case_prod_beta metadata_path_def sample_world_def xbps_set_pkg_state_installed_def
        c_chdir_def)
  have r3: "w_disk (snd (xbps_unpack_binary_pkg ?c sample_handle ?pkg (sample_world [])))
              ''./a'' = None"
    using main [THEN conjunct1] d by (simp add: keep)
  from r1 r2 r3 show ?thesis by blast
qed

lemma unpack_entry_early:
  assumes "propsd st = None \<or> filesd st = None"
      and "st_mode e \<noteq> S_IFDIR" and "\<not> is_metadata_path (pathname e)"
  shows "unpack_entry c xhp pkg upd e st w = unpack_skip_early e (xucd_prepare e st) w"
  using assms
  by (auto simp: unpack_entry_def is_metadata_path_def xucd_prepare_def split: option.splits)

lemma unpack_entries_early_skipped:
  assumes "propsd st = None \<or> filesd st = None"
      and "\<forall>e\<in>set es. st_mode e \<noteq> S_IFDIR \<and> \<not> is_metadata_path (pathname e)"
      and "entry_idx st + length es \<le> 3"
  shows "\<exists>st'. unpack_entries c xhp pkg upd es st w =
                 Next st' (w\<lparr>w_trace := w_trace w @
                                 map (\<lambda>e. Archive_read_data_skip (pathname e)) es\<rparr>) \<and>
               entry_idx st' = entry_idx st + length es \<and>
               propsd st' = propsd st \<and> filesd st' = filesd st"
  using assms
proof (induction es arbitrary: st w)
  case Nil
  then show ?case by simp
next
  case (Cons e es)
  let ?st1 = "(xucd_prepare e (st\<lparr>ar_errno := 0\<rparr>))\<lparr>entry_idx := entry_idx st + 1\<rparr>"
  let ?w1 = "archive_read_data_skip e w"
  have step: "unpack_entry c xhp pkg upd e (st\<lparr>ar_errno := 0\<rparr>) w = Next ?st1 ?w1"
    using Cons.prems
    by (simp add: unpack_entry_early unpack_skip_early_def xucd_prepare_def)
  have "\<exists>st'. unpack_entries c xhp pkg upd es ?st1 ?w1 =
                 Next st' (?w1\<lparr>w_trace := w_trace ?w1 @
                                 map (\<lambda>e. Archive_read_data_skip (pathname e)) es\<rparr>) \<and>
               entry_idx st' = entry_idx ?st1 + length es \<and>
               propsd st' = propsd ?st1 \<and> filesd st' = filesd ?st1"
    using Cons.prems by (intro Cons.IH) (auto simp: xucd_prepare_def)
  then show ?case
    using step by (auto simp: xucd_prepare_def archive_read_data_skip_def log_event_def)
qed

lemma unpack_entries_early_rejected:
  assumes "propsd st = None \<or> filesd st = None"
      and "\<forall>e\<in>set es. st_mode e \<noteq> S_IFDIR \<and> \<not> is_metadata_path (pathname e)"
      and "3 < entry_idx st + length es" and "es \<noteq> []"
  shows "unpack_entries c xhp pkg upd es st w =
           Out ENODEV (w\<lparr>w_trace := w_trace w @
                          map (\<lambda>e. Archive_read_data_skip (pathname e))
                            (take (Suc (3 - entry_idx st)) es) @
                          [Set_cb_state XBPS_STATE_UNPACK_FAIL ENODEV]\<rparr>)"
  using assms
proof (induction es arbitrary: st w)
  case Nil
  then show ?case
    by simp
next
  case (Cons e es)
  show ?case
  proof (cases "3 \<le> entry_idx st")
    case True
    then show ?thesis
      using Cons.prems
      by (simp add: unpack_entry_early unpack_skip_early_def xucd_prepare_def
          archive_read_data_skip_def log_event_def xbps_set_cb_state_def)
  next
    case False
    let ?st1 = "(xucd_prepare e (st\<lparr>ar_errno := 0\<rparr>))\<lparr>entry_idx := entry_idx st + 1\<rparr>"
    let ?w1 = "archive_read_data_skip e w"
    have step: "unpack_entry c xhp pkg upd e (st\<lparr>ar_errno := 0\<rparr>) w = Next ?st1 ?w1"
      using Cons.prems False
      by (simp add: unpack_entry_early unpack_skip_early_def xucd_prepare_def)
    have "unpack_entries c xhp pkg upd es ?st1 ?w1 =
           Out ENODEV (?w1\<lparr>w_trace := w_trace ?w1 @
                          map (\<lambda>e. Archive_read_data_skip (pathname e))
                            (take (Suc (3 - entry_idx ?st1)) es) @
                          [Set_cb_state XBPS_STATE_UNPACK_FAIL ENODEV]\<rparr>)"
      using Cons.prems False by (intro Cons.IH) (auto simp: xucd_prepare_def)
    moreover have "Suc (3 - entry_idx st) = Suc (Suc (3 - entry_idx ?st1))"
      using False by (simp add: xucd_prepare_def)
    ultimately show ?thesis
      using step by (simp add: archive_read_data_skip_def log_event_def xucd_prepare_def)
  qed
qed

text \<open>
  C7: while one of the two dictionaries is missing, entries that are neither directories
  nor one of the four metadata files are skipped with \<^verbatim>\<open>archive_read_data_skip\<close> and
  nothing else happens to the world (none is extracted); \<^verbatim>\<open>entry_idx\<close> counts them. Up to
  three are tolerated; the fourth ends the unpack with \<^verbatim>\<open>ENODEV\<close>, after its data has been
  skipped.
\<close>

theorem C7_early_data_entries:
  assumes "propsd st = None \<or> filesd st = None"
      and "\<forall>e\<in>set es. st_mode e \<noteq> S_IFDIR \<and> \<not> is_metadata_path (pathname e)"
  shows "(entry_idx st + length es \<le> 3 \<longrightarrow>
            (\<exists>st'. unpack_loop c xhp pkg upd (map Header es @ rest) st w =
                     unpack_loop c xhp pkg upd rest st'
                       (w\<lparr>w_trace := w_trace w @
                            map (\<lambda>e. Archive_read_data_skip (pathname e)) es\<rparr>) \<and>
                   entry_idx st' = entry_idx st + length es \<and>
                   propsd st' = propsd st \<and> filesd st' = filesd st)) \<and>
         (3 < entry_idx st + length es \<and> es \<noteq> [] \<longrightarrow>
            unpack_loop c xhp pkg upd (map Header es @ rest) st w =
              Out ENODEV (w\<lparr>w_trace := w_trace w @
                            map (\<lambda>e. Archive_read_data_skip (pathname e))
                              (take (Suc (3 - entry_idx st)) es) @
                            [Set_cb_state XBPS_STATE_UNPACK_FAIL ENODEV]\<rparr>))"
proof (intro conjI impI)
  assume le: "entry_idx st + length es \<le> 3"
  from unpack_entries_early_skipped [OF assms le, of c xhp pkg upd w]
  obtain st' where
    "unpack_entries c xhp pkg upd es st w =
       Next st' (w\<lparr>w_trace := w_trace w @ map (\<lambda>e. Archive_read_data_skip (pathname e)) es\<rparr>)"
    "entry_idx st' = entry_idx st + length es" "propsd st' = propsd st" "filesd st' = filesd st"
    by blast
  then show "\<exists>st'. unpack_loop c xhp pkg upd (map Header es @ rest) st w =
                     unpack_loop c xhp pkg upd rest st'
                       (w\<lparr>w_trace := w_trace w @
                            map (\<lambda>e. Archive_read_data_skip (pathname e)) es\<rparr>) \<and>
                   entry_idx st' = entry_idx st + length es \<and>
                   propsd st' = propsd st \<and> filesd st' = filesd st"
    by (auto simp: unpack_loop_append)
next
  assume "3 < entry_idx st + length es \<and> es \<noteq> []"
  then have gt: "3 < entry_idx st + length es" and ne: "es \<noteq> []" by simp_all
  from unpack_entries_early_rejected [OF assms gt ne, of c xhp pkg upd w]
  show "unpack_loop c xhp pkg upd (map Header es @ rest) st w =
              Out ENODEV (w\<lparr>w_trace := w_trace w @
                            map (\<lambda>e. Archive_read_data_skip (pathname e))
                              (take (Suc (3 - entry_idx st)) es) @
                            [Set_cb_state XBPS_STATE_UNPACK_FAIL ENODEV]\<rparr>)"
    by (simp add: unpack_loop_append)
qed

text \<open>
  C7, witness: two files and no metadata are skipped; of five files the fourth ends the
  unpack.
\<close>

theorem C7_witness:
  "(\<exists>st'. unpack_loop (sample_env sample_files sample_props []) sample_handle
            (sample_pkg ''install'') False
            (map Header [file_entry ''./x1'' ''1'', file_entry ''./x2'' ''2''] @ [])
            (unpack_state_init sample_handle) (sample_world [])
          = Next st' ((sample_world [])\<lparr>w_trace :=
              [Archive_read_data_skip ''./x1'', Archive_read_data_skip ''./x2'']\<rparr>)) \<and>
   unpack_loop (sample_env sample_files sample_props []) sample_handle (sample_pkg ''install'')
     False
     (map Header [file_entry ''./x1'' ''1'', file_entry ''./x2'' ''2'', file_entry ''./x3'' ''3'',
                  file_entry ''./x4'' ''4''] @ [Header (file_entry ''./x5'' ''5'')])
     (unpack_state_init sample_handle) (sample_world [])
   = Out ENODEV ((sample_world [])\<lparr>w_trace :=
       [Archive_read_data_skip ''./x1'', Archive_read_data_skip ''./x2'',
        Archive_read_data_skip ''./x3'', Archive_read_data_skip ''./x4'',
        Set_cb_state XBPS_STATE_UNPACK_FAIL ENODEV]\<rparr>)"
proof -
  have h1: "propsd (unpack_state_init sample_handle) = None \<or>
            filesd (unpack_state_init sample_handle) = None"
    by (simp add: unpack_state_init_def)
  have h2: "\<forall>e\<in>set [file_entry ''./x1'' ''1'', file_entry ''./x2'' ''2'',
                     file_entry ''./x3'' ''3'', file_entry ''./x4'' ''4''].
              st_mode e \<noteq> S_IFDIR \<and> \<not> is_metadata_path (pathname e)"
    by (simp add: file_entry_def is_metadata_path_def)
  have h3: "\<forall>e\<in>set [file_entry ''./x1'' ''1'', file_entry ''./x2'' ''2''].
              st_mode e \<noteq> S_IFDIR \<and> \<not> is_metadata_path (pathname e)"
    by (simp add: file_entry_def is_metadata_path_def)
  from C7_early_data_entries [OF h1 h3, of "sample_env sample_files sample_props []"
      sample_handle "sample_pkg ''install''" False "[]" "sample_world []"]
  have two: "\<exists>st'. unpack_loop (sample_env sample_files sample_props []) sample_handle
            (sample_pkg ''install'') False
            (map Header [file_entry ''./x1'' ''1'', file_entry ''./x2'' ''2''] @ [])
            (unpack_state_init sample_handle) (sample_world [])
          = Next st' ((sample_world [])\<lparr>w_trace :=
              [Archive_read_data_skip ''./x1'', Archive_read_data_skip ''./x2'']\<rparr>)"
    by (auto simp: unpack_state_init_def sample_world_def file_entry_def)
  from C7_early_data_entries [OF h1 h2, of "sample_env sample_files sample_props []"
      sample_handle "sample_pkg ''install''" False "[Header (file_entry ''./x5'' ''5'')]"
      "sample_world []"]
  have four: "unpack_loop (sample_env sample_files sample_props []) sample_handle
     (sample_pkg ''install'') False
     (map Header [file_entry ''./x1'' ''1'', file_entry ''./x2'' ''2'', file_entry ''./x3'' ''3'',
                  file_entry ''./x4'' ''4''] @ [Header (file_entry ''./x5'' ''5'')])
     (unpack_state_init sample_handle) (sample_world [])
   = Out ENODEV ((sample_world [])\<lparr>w_trace :=
       [Archive_read_data_skip ''./x1'', Archive_read_data_skip ''./x2'',
        Archive_read_data_skip ''./x3'', Archive_read_data_skip ''./x4'',
        Set_cb_state XBPS_STATE_UNPACK_FAIL ENODEV]\<rparr>)"
    by (simp add: unpack_state_init_def sample_world_def file_entry_def)
  from two four show ?thesis by blast
qed



lemma unpack_begin_Next_trace:
  assumes "unpack_begin c xhp pkg w = Next st1 w1"
  shows "\<exists>name. w_trace w1 =
           w_trace w @ [Access (rootdir xhp)] @
           (if rootdir xhp \<in> w_dirs w \<or> w_disk w (rootdir xhp) \<noteq> None then []
            else [Mkpath (rootdir xhp)]) @
           [Chdir (rootdir xhp)] @
           (if transaction pkg = ''update''
            then [Unlink (metadata_path c name ''INSTALL''),
                  Unlink (metadata_path c name ''REMOVE'')]
            else []) \<and>
           (transaction pkg = ''update'' \<longrightarrow> xbps_pkg_name c (pkgver pkg) = Some name)"
  using assms
  by (auto simp: unpack_begin_def remove_metafile_def c_access_def xbps_mkpath_def
      c_chdir_def c_unlink_def xbps_xasprintf_def
      split: if_splits option.splits prod.splits)

lemma unpack_archive_after_begin:
  assumes "unpack_begin c xhp pkg w = Next st1 w1"
  shows "prefix (w_trace w1) (w_trace (snd (unpack_archive c xhp pkg ar w)))"
proof -
  have l: "prefix (w_trace w1) (w_trace (ctl_world
             (unpack_loop c xhp pkg (transaction pkg = ''update'') ar st1 w1)))"
    by simp
  show ?thesis
  proof (cases "unpack_loop c xhp pkg (transaction pkg = ''update'') ar st1 w1")
    case (Out rv w2)
    with l assms show ?thesis by (simp add: unpack_archive_def)
  next
    case (Next st2 w2)
    with l have "prefix (w_trace w1) (w_trace w2)" by simp
    with Next assms show ?thesis by (simp add: unpack_archive_def)
  qed
qed

lemma set_pkg_state_installed_trace [simp]:
  "w_trace (snd (xbps_set_pkg_state_installed c name ver pv s w))
     = w_trace w @ [Set_pkg_state_installed name s]"
  by (simp add: xbps_set_pkg_state_installed_def)

text \<open>
  C9, counterexample. On an update with both old scripts on disk, the first calls of the
  run are: the notification, the write of \<^verbatim>\<open>half-unpacked\<close>, and only then the root
  directory and the two \<^verbatim>\<open>unlink\<close> calls. The state is persisted while the old scripts
  are still there.
\<close>

theorem C9_state_written_first:
  "w_disk (sample_world [(''var/db/xbps/metadata/foo/INSTALL'', ''old''),
                         (''var/db/xbps/metadata/foo/REMOVE'', ''old'')])
     ''var/db/xbps/metadata/foo/INSTALL'' = Some ''old'' \<and>
   take 6 (w_trace (snd (xbps_unpack_binary_pkg
      (sample_env sample_files sample_props sample_archive) sample_handle (sample_pkg ''update'')
      (sample_world [(''var/db/xbps/metadata/foo/INSTALL'', ''old''),
                     (''var/db/xbps/metadata/foo/REMOVE'', ''old'')]))))
   = [Set_cb_state XBPS_STATE_UNPACK 0,
      Set_pkg_state_installed ''foo'' XBPS_PKG_STATE_HALF_UNPACKED,
      Access ''/'', Chdir ''/'',
      Unlink ''var/db/xbps/metadata/foo/INSTALL'', Unlink ''var/db/xbps/metadata/foo/REMOVE'']"
  by code_simp

text \<open>
  C9, as amended: once the archive is open, \<^verbatim>\<open>xbps_unpack_binary_pkg\<close> first writes the
  state \<^verbatim>\<open>half-unpacked\<close>; then \<^verbatim>\<open>unpack_archive\<close> resolves the root directory (and creates
  it when it is missing), changes to it, and on an update removes the old \<^verbatim>\<open>INSTALL\<close> and
  \<^verbatim>\<open>REMOVE\<close> scripts; everything else comes later. The first part holds for every run
  that opens the archive, the second when the state is written and these first steps
  succeed.
\<close>

theorem C9_state_written_before_rootdir_and_scripts:
  assumes path: "xbps_path_from_repository_uri c pkg (repository pkg) = Inr bpkg"
      and new: "archive_read_new c"
      and opn: "archive_read_open_filename c bpkg = Inr ar"
  shows "(\<exists>rest.
            w_trace (snd (xbps_unpack_binary_pkg c xhp pkg w0)) =
              w_trace w0 @
              [Set_cb_state XBPS_STATE_UNPACK 0,
               Set_pkg_state_installed (pkgname pkg) XBPS_PKG_STATE_HALF_UNPACKED] @ rest) \<and>
         (\<forall>st1 w1.
            set_pkg_state_errno c (pkgname pkg) XBPS_PKG_STATE_HALF_UNPACKED = 0 \<and>
            unpack_begin c xhp pkg
              (snd (xbps_set_pkg_state_installed c (pkgname pkg) (version pkg) (pkgver pkg)
                      XBPS_PKG_STATE_HALF_UNPACKED
                      (xbps_set_cb_state XBPS_STATE_UNPACK 0 w0))) = Next st1 w1 \<longrightarrow>
            (\<exists>name rest.
               w_trace (snd (xbps_unpack_binary_pkg c xhp pkg w0)) =
                 w_trace w0 @
                 [Set_cb_state XBPS_STATE_UNPACK 0,
                  Set_pkg_state_installed (pkgname pkg) XBPS_PKG_STATE_HALF_UNPACKED,
                  Access (rootdir xhp)] @
                 (if rootdir xhp \<in> w_dirs w0 \<or> w_disk w0 (rootdir xhp) \<noteq> None then []
                  else [Mkpath (rootdir xhp)]) @
                 [Chdir (rootdir xhp)] @
                 (if transaction pkg = ''update''
                  then [Unlink (metadata_path c name ''INSTALL''),
                        Unlink (metadata_path c name ''REMOVE'')]
                  else []) @ rest \<and>
               (transaction pkg = ''update'' \<longrightarrow> xbps_pkg_name c (pkgver pkg) = Some name)))"
proof (intro conjI allI impI)
  let ?W = "snd (xbps_set_pkg_state_installed c (pkgname pkg) (version pkg) (pkgver pkg)
                   XBPS_PKG_STATE_HALF_UNPACKED (xbps_set_cb_state XBPS_STATE_UNPACK 0 w0))"
  have W: "w_trace ?W = w_trace w0 @ [Set_cb_state XBPS_STATE_UNPACK 0,
             Set_pkg_state_installed (pkgname pkg) XBPS_PKG_STATE_HALF_UNPACKED]"
    by simp
  have "prefix (w_trace ?W) (w_trace (snd (unpack_archive c xhp pkg ar ?W)))"
    by (rule unpack_archive_trace) simp
  then have "prefix (w_trace ?W) (w_trace (snd (xbps_unpack_binary_pkg c xhp pkg w0)))"
    using path new opn
    by (simp add: xbps_unpack_binary_pkg_def case_prod_beta)
  then obtain rest where
    "w_trace (snd (xbps_unpack_binary_pkg c xhp pkg w0)) = w_trace ?W @ rest"
    by (auto elim: prefixE)
  with W show "\<exists>rest.
            w_trace (snd (xbps_unpack_binary_pkg c xhp pkg w0)) =
              w_trace w0 @
              [Set_cb_state XBPS_STATE_UNPACK 0,
               Set_pkg_state_installed (pkgname pkg) XBPS_PKG_STATE_HALF_UNPACKED] @ rest"
    by auto
next
  fix st1 w1
  let ?W = "snd (xbps_set_pkg_state_installed c (pkgname pkg) (version pkg) (pkgver pkg)
                   XBPS_PKG_STATE_HALF_UNPACKED (xbps_set_cb_state XBPS_STATE_UNPACK 0 w0))"
  assume "set_pkg_state_errno c (pkgname pkg) XBPS_PKG_STATE_HALF_UNPACKED = 0 \<and>
          unpack_begin c xhp pkg ?W = Next st1 w1"
  then have half: "set_pkg_state_errno c (pkgname pkg) XBPS_PKG_STATE_HALF_UNPACKED = 0"
    and beg: "unpack_begin c xhp pkg ?W = Next st1 w1"
    by simp_all
  have W: "w_dirs ?W = w_dirs w0" "w_disk ?W = w_disk w0"
    using half by (simp_all add: xbps_set_pkg_state_installed_def)
  from unpack_begin_Next_trace [OF beg] obtain name where
    w1: "w_trace w1 =
           w_trace ?W @ [Access (rootdir xhp)] @
           (if rootdir xhp \<in> w_dirs ?W \<or> w_disk ?W (rootdir xhp) \<noteq> None then []
            else [Mkpath (rootdir xhp)]) @
           [Chdir (rootdir xhp)] @
           (if transaction pkg = ''update''
            then [Unlink (metadata_path c name ''INSTALL''),
                  Unlink (metadata_path c name ''REMOVE'')]
            else [])"
    and name: "transaction pkg = ''update'' \<longrightarrow> xbps_pkg_name c (pkgver pkg) = Some name"
    by blast
  have a: "prefix (w_trace w1) (w_trace (snd (unpack_archive c xhp pkg ar ?W)))"
    using beg by (rule unpack_archive_after_begin)
  have "prefix (w_trace w1) (w_trace (snd (xbps_unpack_binary_pkg c xhp pkg w0)))"
    using path new opn half a
    by (simp add: xbps_unpack_binary_pkg_def case_prod_beta
        xbps_set_pkg_state_installed_def [of c _ _ _ XBPS_PKG_STATE_HALF_UNPACKED])
  then obtain rest where
    "w_trace (snd (xbps_unpack_binary_pkg c xhp pkg w0)) = w_trace w1 @ rest"
    by (auto elim: prefixE)
  with w1 W name
  show "\<exists>name rest.
               w_trace (snd (xbps_unpack_binary_pkg c xhp pkg w0)) =
                 w_trace w0 @
                 [Set_cb_state XBPS_STATE_UNPACK 0,
                  Set_pkg_state_installed (pkgname pkg) XBPS_PKG_STATE_HALF_UNPACKED,
                  Access (rootdir xhp)] @
                 (if rootdir xhp \<in> w_dirs w0 \<or> w_disk w0 (rootdir xhp) \<noteq> None then []
                  else [Mkpath (rootdir xhp)]) @
                 [Chdir (rootdir xhp)] @
                 (if transaction pkg = ''update''
                  then [Unlink (metadata_path c name ''INSTALL''),
                        Unlink (metadata_path c name ''REMOVE'')]
                  else []) @ rest \<and>
               (transaction pkg = ''update'' \<longrightarrow> xbps_pkg_name c (pkgver pkg) = Some name)"
    by auto
qed

text \<open>C9, witness: the update of the counterexample.\<close>

theorem C9_witness:
  "\<exists>rest. w_trace (snd (xbps_unpack_binary_pkg
      (sample_env sample_files sample_props sample_archive) sample_handle (sample_pkg ''update'')
      (sample_world [(''var/db/xbps/metadata/foo/INSTALL'', ''old''),
                     (''var/db/xbps/metadata/foo/REMOVE'', ''old'')])))
   = [Set_cb_state XBPS_STATE_UNPACK 0,
      Set_pkg_state_installed ''foo'' XBPS_PKG_STATE_HALF_UNPACKED,
      Access ''/'', Chdir ''/'',
      Unlink ''var/db/xbps/metadata/foo/INSTALL'', Unlink ''var/db/xbps/metadata/foo/REMOVE'']
     @ rest"
proof -
  let ?c = "sample_env sample_files sample_props sample_archive"
  let ?pkg = "sample_pkg ''update''"
  let ?w0 = "sample_world [(''var/db/xbps/metadata/foo/INSTALL'', ''old''),
                           (''var/db/xbps/metadata/foo/REMOVE'', ''old'')]"
  let ?W = "snd (xbps_set_pkg_state_installed ?c (pkgname ?pkg) (version ?pkg) (pkgver ?pkg)
                   XBPS_PKG_STATE_HALF_UNPACKED (xbps_set_cb_state XBPS_STATE_UNPACK 0 ?w0))"
  let ?w1 = "snd (c_unlink ?c ''var/db/xbps/metadata/foo/REMOVE''
               (snd (c_unlink ?c ''var/db/xbps/metadata/foo/INSTALL''
                  (snd (c_chdir ?c ''/'' (snd (c_access ?c ''/'' ?W)))))))"
  have pkg: "pkgname ?pkg = ''foo''" "transaction ?pkg = ''update''" "pkgver ?pkg = ''foo-1.0''"
    by (simp_all add: sample_pkg_def mk_pkg_def)
  have name: "xbps_pkg_name ?c ''foo-1.0'' = Some ''foo''"
    by (simp add: sample_env_def pkg_name_part_def)
  have path: "xbps_path_from_repository_uri ?c ?pkg (repository ?pkg) = Inr ''repo/foo-1.0.xbps''"
    by (simp add: sample_env_def sample_pkg_def mk_pkg_def)
  have new: "archive_read_new ?c"
    by (simp add: sample_env_def)
  have opn: "archive_read_open_filename ?c ''repo/foo-1.0.xbps'' = Inr sample_archive"
    by (simp add: sample_env_def)
  have half: "set_pkg_state_errno ?c (pkgname ?pkg) XBPS_PKG_STATE_HALF_UNPACKED = 0"
    by (simp add: sample_env_def)
  have beg: "unpack_begin ?c sample_handle ?pkg ?W = Next (unpack_state_init sample_handle) ?w1"
    by (simp add: unpack_begin_def remove_metafile_def sample_pkg_def mk_pkg_def
          sample_env_def sample_handle_def sample_world_def c_access_def c_chdir_def
          c_unlink_def xbps_set_pkg_state_installed_def xbps_xasprintf_def metadata_path_def
          pkg_name_part_def version_part_def xbps_set_cb_state_def log_event_def)
  have root: "rootdir sample_handle = ''/''" "''/'' \<in> w_dirs ?w0" "w_trace ?w0 = []"
    by (simp_all add: sample_handle_def sample_world_def)
  have meta: "metadata_path ?c ''foo'' ''INSTALL'' = ''var/db/xbps/metadata/foo/INSTALL''"
             "metadata_path ?c ''foo'' ''REMOVE'' = ''var/db/xbps/metadata/foo/REMOVE''"
    by (simp_all add: metadata_path_def sample_env_def)
  from C9_state_written_before_rootdir_and_scripts [OF path new opn, of sample_handle ?w0,
      THEN conjunct2, rule_format, OF conjI, OF half beg]
  show ?thesis unfolding pkg root using name meta root by auto
qed




end
